theory Spec2Isabelle
  imports Complex_Main
begin

text \<open>
  A model of the TransMedix backend: the Mongoose models of sessions, transcriptions and
  summaries, the controllers that work on them, the upload route, and the events sent
  over the WebSocket channel. The database is a value that each handler takes and
  returns; what a handler leaves running when it answers is returned as a job, and the
  callbacks of the job are functions of their own that take the outcome of the external
  service. Every \<open>catch\<close> block of the source is the branch of an error value.
\<close>

section \<open>JavaScript values\<close>

text \<open>
  Request bodies reach the controllers as parsed JSON. A JSON object is an association
  list of its members; a lookup of a key that is absent is JavaScript's \<open>undefined\<close>
  and is \<open>None\<close> here.
\<close>

datatype json =
    JNull
  | JBool bool
  | JNum real
  | JStr string
  | JArr "json list"
  | JObj "(string \<times> json) list"

text \<open>JavaScript truthiness, as tested by \<open>if (v)\<close>, \<open>!v\<close> and \<open>v || d\<close>.\<close>

fun truthy :: "json \<Rightarrow> bool" where
  "truthy JNull = False"
| "truthy (JBool b) = b"
| "truthy (JNum n) = (n \<noteq> 0)"
| "truthy (JStr s) = (s \<noteq> [])"
| "truthy (JArr xs) = True"
| "truthy (JObj kvs) = True"

definition truthy_opt :: "json option \<Rightarrow> bool" where
  "truthy_opt v = (case v of None \<Rightarrow> False | Some j \<Rightarrow> truthy j)"

subsection \<open>Numbers\<close>

text \<open>
  A JavaScript number is an IEEE 754 double: an integer of at most 53 bits times a power
  of two. The result of an arithmetic operation is the double nearest to the exact
  result and, of two doubles equally near, the one whose integer is even. \<open>double x\<close>
  is that rounding of the real number \<open>x\<close>; \<open>exponent x\<close> is the \<open>e\<close> for which
  \<open>|x|\<close> is at least \<open>2 powi e\<close> and less than \<open>2 powi (e + 1)\<close>. Overflow and the subnormal numbers do not occur among
  the quantities computed here.
\<close>

fun ilog2 :: "nat \<Rightarrow> nat" where
  "ilog2 n = (if n < 2 then 0 else Suc (ilog2 (n div 2)))"

declare ilog2.simps [simp del]

definition exponent :: "real \<Rightarrow> int" where
  "exponent x =
    (if 1 \<le> \<bar>x\<bar> then int (ilog2 (nat \<lfloor>\<bar>x\<bar>\<rfloor>))
     else - int (ilog2 (nat \<lceil>1 / \<bar>x\<bar>\<rceil> - 1)) - 1)"

definition round_even :: "real \<Rightarrow> int" where
  "round_even x =
    (if x - of_int \<lfloor>x\<rfloor> < 1 / 2 then \<lfloor>x\<rfloor>
     else if 1 / 2 < x - of_int \<lfloor>x\<rfloor> then \<lfloor>x\<rfloor> + 1
     else if even \<lfloor>x\<rfloor> then \<lfloor>x\<rfloor>
     else \<lfloor>x\<rfloor> + 1)"

definition double :: "real \<Rightarrow> real" where
  "double x =
    (if x = 0 then 0
     else of_int (round_even (x / 2 powi (exponent x - 52))) * 2 powi (exponent x - 52))"

text \<open>
  \<open>Math.round(x)\<close> is the integer nearest to \<open>x\<close> and, of two integers equally near,
  the greater.
\<close>

definition Math_round :: "real \<Rightarrow> real" where
  "Math_round x = of_int \<lfloor>x + 1 / 2\<rfloor>"

subsection \<open>Strings\<close>

text \<open>
  A string is the list of the bytes of its UTF-8 encoding, so that a character outside
  ASCII is two or three bytes. \<open>String.prototype.trim\<close> removes, at both ends, the
  white space and the line terminators of the language: the six ASCII characters and
  U+00A0, U+1680, U+2000 to U+200A, U+2028, U+2029, U+202F, U+205F, U+3000 and U+FEFF.
\<close>

definition whiteSpace :: "string list" where
  "whiteSpace =
    [[CHR 0x09], [CHR 0x0A], [CHR 0x0B], [CHR 0x0C], [CHR 0x0D], [CHR 0x20],
     [CHR 0xC2, CHR 0xA0],
     [CHR 0xE1, CHR 0x9A, CHR 0x80],
     [CHR 0xE2, CHR 0x80, CHR 0x80], [CHR 0xE2, CHR 0x80, CHR 0x81],
     [CHR 0xE2, CHR 0x80, CHR 0x82], [CHR 0xE2, CHR 0x80, CHR 0x83],
     [CHR 0xE2, CHR 0x80, CHR 0x84], [CHR 0xE2, CHR 0x80, CHR 0x85],
     [CHR 0xE2, CHR 0x80, CHR 0x86], [CHR 0xE2, CHR 0x80, CHR 0x87],
     [CHR 0xE2, CHR 0x80, CHR 0x88], [CHR 0xE2, CHR 0x80, CHR 0x89],
     [CHR 0xE2, CHR 0x80, CHR 0x8A],
     [CHR 0xE2, CHR 0x80, CHR 0xA8], [CHR 0xE2, CHR 0x80, CHR 0xA9],
     [CHR 0xE2, CHR 0x80, CHR 0xAF],
     [CHR 0xE2, CHR 0x81, CHR 0x9F],
     [CHR 0xE3, CHR 0x80, CHR 0x80],
     [CHR 0xEF, CHR 0xBB, CHR 0xBF]]"

text \<open>
  \<open>strip ws s\<close> removes from the front of \<open>s\<close> every leading member of \<open>ws\<close>, a
  list of sequences of one, two or three bytes.
\<close>

fun strip :: "string list \<Rightarrow> string \<Rightarrow> string" where
  "strip ws [] = []"
| "strip ws (a # s) =
    (if [a] \<in> set ws then strip ws s
     else (case s of
             [] \<Rightarrow> [a]
           | b # s1 \<Rightarrow>
              if [a, b] \<in> set ws then strip ws s1
              else (case s1 of
                      [] \<Rightarrow> [a, b]
                    | c # s2 \<Rightarrow> if [a, b, c] \<in> set ws then strip ws s2 else a # b # c # s2)))"

definition trimStart :: "string \<Rightarrow> string" where
  "trimStart s = strip whiteSpace s"

definition trimEnd :: "string \<Rightarrow> string" where
  "trimEnd s = rev (strip (map rev whiteSpace) (rev s))"

definition trim :: "string \<Rightarrow> string" where
  "trim s = trimEnd (trimStart s)"

section \<open>transcriptionService: language codes\<close>

text \<open>
  \<open>getLanguageCode\<close> reads \<open>languageMap[language]\<close> on an object literal. A
  property read on a JavaScript object looks at the object's own properties first and
  then follows the prototype chain; an object literal's prototype is
  \<open>Object.prototype\<close>. The result of the read is therefore a string of the table,
  a member of \<open>Object.prototype\<close> (a built-in function, or the prototype object
  itself for \<open>__proto__\<close>), or \<open>undefined\<close>.
\<close>

datatype jsval =
    JSString string
  | JSFunction string
  | JSObject string

fun js_truthy :: "jsval \<Rightarrow> bool" where
  "js_truthy (JSString s) = (s \<noteq> [])"
| "js_truthy (JSFunction f) = True"
| "js_truthy (JSObject ob) = True"

definition languageMap :: "(string \<times> string) list" where
  "languageMap =
    [(''en'', ''en-US''),
     (''hi'', ''hi-IN''),
     (''bn'', ''bn-IN''),
     (''te'', ''te-IN''),
     (''mr'', ''mr-IN''),
     (''ta'', ''ta-IN''),
     (''gu'', ''gu-IN''),
     (''kn'', ''kn-IN'')]"

text \<open>The members every object inherits from \<open>Object.prototype\<close>.\<close>

definition object_prototype :: "(string \<times> jsval) list" where
  "object_prototype =
    [(''constructor'', JSFunction ''Object''),
     (''__defineGetter__'', JSFunction ''__defineGetter__''),
     (''__defineSetter__'', JSFunction ''__defineSetter__''),
     (''hasOwnProperty'', JSFunction ''hasOwnProperty''),
     (''__lookupGetter__'', JSFunction ''__lookupGetter__''),
     (''__lookupSetter__'', JSFunction ''__lookupSetter__''),
     (''isPrototypeOf'', JSFunction ''isPrototypeOf''),
     (''propertyIsEnumerable'', JSFunction ''propertyIsEnumerable''),
     (''toString'', JSFunction ''toString''),
     (''valueOf'', JSFunction ''valueOf''),
     (''__proto__'', JSObject ''Object.prototype''),
     (''toLocaleString'', JSFunction ''toLocaleString'')]"

text \<open>\<open>obj[key]\<close> for an object literal whose own properties are strings.\<close>

definition get_property :: "(string \<times> string) list \<Rightarrow> string \<Rightarrow> jsval option" where
  "get_property own key =
    (case map_of own key of
       Some s \<Rightarrow> Some (JSString s)
     | None \<Rightarrow> map_of object_prototype key)"

text \<open>\<open>return languageMap[language] || 'en-US';\<close>\<close>

definition getLanguageCode :: "string \<Rightarrow> jsval" where
  "getLanguageCode language =
    (case get_property languageMap language of
       Some v \<Rightarrow> if js_truthy v then v else JSString ''en-US''
     | None \<Rightarrow> JSString ''en-US'')"

section \<open>Mongoose documents\<close>

text \<open>
  A \<open>Date\<close> is its number of milliseconds since the epoch, an integer of at most
  8.64e15 in magnitude. An \<open>ObjectId\<close> is its string of 24 hexadecimal digits, in
  lower case as \<open>toString\<close> gives it. Each record lists the top-level paths of its
  schema; the \<open>_id\<close> of a document is its first field. A record is a document as it
  is stored: a path that is an \<open>option\<close> may be missing from the stored document,
  which is \<open>None\<close>. The paths that are objects or arrays of objects are kept as JSON.
  The \<open>createdAt\<close> and \<open>updatedAt\<close> stamps that the \<open>timestamps\<close> option adds,
  the version key and the \<open>_id\<close> of a subdocument are not part of the records.
\<close>

type_synonym date = int
type_synonym objectId = string

record session_doc =
  oid :: objectId
  sessionId :: string
  patient :: "objectId option"
  doctorName :: string
  doctorId :: "string option"
  sessionType :: string
  department :: "string option"
  startTime :: "date option"
  endTime :: "date option"
  duration :: real
  status :: string
  transcriptions :: "objectId list"
  summary :: "objectId option"
  symptoms :: json
  diagnosis :: json
  prescriptions :: json
  followUpRequired :: bool
  followUpDate :: "date option"
  priority :: string
  notes_s :: "string option"
  metadata :: json
  isActive :: bool

record edit_entry =
  originalText :: string
  editedText :: string
  editedAt :: date
  editedBy :: string

record audio_file =
  originalName :: string
  filename :: string
  path_f :: string
  size_f :: nat
  mimeType :: string

record transcription_doc =
  oid_t :: objectId
  transcriptionId :: string
  session_t :: objectId
  audioFile :: audio_file
  transcriptionText :: string
  confidence :: "real option"
  language_t :: string
  speaker :: string
  processingMetadata :: json
  status_t :: string
  isEdited :: bool
  editHistory :: "edit_entry list"

record version_entry =
  ve_version :: nat
  ve_content :: "(string \<times> string) list"
  ve_generatedBy :: string

record summary_doc =
  oid_m :: objectId
  summaryId :: string
  session_m :: objectId
  content :: "(string \<times> string) list"
  keyPoints :: json
  extractedData :: json
  generationMetadata :: json
  status_m :: string
  version :: nat
  previousVersions :: "version_entry list"
  reviewedBy :: "string option"
  reviewedAt :: "date option"
  reviewNotes :: "string option"
  isApproved :: bool
  isActive_m :: bool

text \<open>The database: one collection of documents for each model.\<close>

record store =
  db_sessions :: "session_doc list"
  db_transcriptions :: "transcription_doc list"
  db_summaries :: "summary_doc list"

datatype db_error =
    CastError string
  | ValidationError string
  | DocumentNotFoundError
  | MongoServerError string

text \<open>
  What a handler draws from its environment when it runs: the clock (\<open>new Date()\<close>),
  the \<open>_id\<close> given to a new document, and the random suffix of the public identifier
  that the schema's \<open>default\<close> function builds (\<open>'trans_' + ...\<close>, \<open>'sum_' + ...\<close>).
\<close>

record env =
  now :: date
  newObjectId :: objectId
  randomSuffix :: string


subsection \<open>Casting\<close>

definition isHexDigit :: "char \<Rightarrow> bool" where
  "isHexDigit c = (c \<in> set ''0123456789abcdefABCDEF'')"

text \<open>The strings that cast to an ObjectId: 24 hexadecimal digits, in either case.\<close>

definition isObjectId :: "string \<Rightarrow> bool" where
  "isObjectId s = (length s = 24 \<and> list_all isHexDigit s)"

definition toLowerCase :: "char \<Rightarrow> char" where
  "toLowerCase c =
    (if c = CHR ''A'' then CHR ''a''
     else if c = CHR ''B'' then CHR ''b''
     else if c = CHR ''C'' then CHR ''c''
     else if c = CHR ''D'' then CHR ''d''
     else if c = CHR ''E'' then CHR ''e''
     else if c = CHR ''F'' then CHR ''f''
     else c)"

text \<open>
  The ObjectId a string casts to. Two spellings of the same twelve bytes are the same
  ObjectId, so the identifier is its lower-case spelling.
\<close>

definition ObjectId_of :: "string \<Rightarrow> objectId option" where
  "ObjectId_of s = (if isObjectId s then Some (map toLowerCase s) else None)"

text \<open>
  What is left to the library is a parameter of the model. Mongoose casts a value to the
  type of its path: a JSON value of the path's own type is taken as it is, and what
  becomes of a value of another type (a number given for a string path, a string given
  for a date) is the first five members, where \<open>None\<close> is a \<open>CastError\<close>.
  \<open>castStructured\<close> is the cast of a value to one of the four paths of a session that
  are objects or arrays (\<open>symptoms\<close>, \<open>diagnosis\<close>, \<open>prescriptions\<close>,
  \<open>metadata\<close>). \<open>otherUpdate\<close> is what \<open>findByIdAndUpdate\<close> makes of an update
  document outside the part of the update language modelled below: the error it
  raises, or the change it makes to the stored document.
\<close>

record schema_types =
  castString :: "json \<Rightarrow> string option"
  castNumber :: "json \<Rightarrow> real option"
  castBoolean :: "json \<Rightarrow> bool option"
  castDate :: "json \<Rightarrow> date option"
  castObjectId :: "json \<Rightarrow> objectId option"
  castStructured :: "string \<Rightarrow> json \<Rightarrow> json option"
  otherUpdate :: "(string \<times> json) list \<Rightarrow> db_error + (session_doc \<Rightarrow> session_doc)"

definition String_cast :: "schema_types \<Rightarrow> json \<Rightarrow> string option" where
  "String_cast ty v = (case v of JStr s \<Rightarrow> Some s | _ \<Rightarrow> castString ty v)"

definition Number_cast :: "schema_types \<Rightarrow> json \<Rightarrow> real option" where
  "Number_cast ty v = (case v of JNum r \<Rightarrow> Some r | _ \<Rightarrow> castNumber ty v)"

definition Boolean_cast :: "schema_types \<Rightarrow> json \<Rightarrow> bool option" where
  "Boolean_cast ty v = (case v of JBool b \<Rightarrow> Some b | _ \<Rightarrow> castBoolean ty v)"

definition ObjectId_cast :: "schema_types \<Rightarrow> json \<Rightarrow> objectId option" where
  "ObjectId_cast ty v = (case v of JStr s \<Rightarrow> ObjectId_of s | _ \<Rightarrow> castObjectId ty v)"

subsection \<open>Validators and saving\<close>

text \<open>
  The validators of a path inside a JSON value: \<open>enum\<close> for a string, \<open>min\<close> and
  \<open>max\<close> for a number. A member that is missing or \<open>null\<close> passes; a value that is
  not an object has no member, and a value that is not an array has no element.
\<close>

definition enum_member :: "string list \<Rightarrow> string \<Rightarrow> json \<Rightarrow> bool" where
  "enum_member allowed k obj =
    (case obj of
       JObj kvs \<Rightarrow>
         (case map_of kvs k of
            None \<Rightarrow> True
          | Some v \<Rightarrow> (case v of JNull \<Rightarrow> True | JStr s \<Rightarrow> s \<in> set allowed | _ \<Rightarrow> False))
     | _ \<Rightarrow> True)"

definition range_member :: "real \<Rightarrow> real \<Rightarrow> string \<Rightarrow> json \<Rightarrow> bool" where
  "range_member lo hi k obj =
    (case obj of
       JObj kvs \<Rightarrow>
         (case map_of kvs k of
            None \<Rightarrow> True
          | Some v \<Rightarrow> (case v of JNull \<Rightarrow> True | JNum r \<Rightarrow> lo \<le> r \<and> r \<le> hi | _ \<Rightarrow> False))
     | _ \<Rightarrow> True)"

definition member :: "string \<Rightarrow> json \<Rightarrow> json" where
  "member k obj =
    (case obj of
       JObj kvs \<Rightarrow> (case map_of kvs k of None \<Rightarrow> JNull | Some v \<Rightarrow> v)
     | _ \<Rightarrow> JNull)"

definition elements :: "json \<Rightarrow> json list" where
  "elements v = (case v of JArr xs \<Rightarrow> xs | _ \<Rightarrow> [])"

text \<open>
  \<open>doc.save()\<close> on a document that was read from its collection sends the paths that
  were assigned since the document was read, or since its last save, and leaves the
  other paths of the stored document as they are. Assigning to a path the value it has
  does not mark it. The model keeps, beside the document, the document \<open>saved\<close> as it
  was read or last saved: a path is sent when its value differs from the saved one, and
  an array that was extended by \<open>push\<close> is sent as the elements pushed.
\<close>

definition changed :: "'a \<Rightarrow> 'a \<Rightarrow> 'a \<Rightarrow> 'a" where
  "changed saved this stored = (if this = saved then stored else this)"

definition pushed :: "'a list \<Rightarrow> 'a list \<Rightarrow> 'a list \<Rightarrow> 'a list" where
  "pushed saved this stored =
    (if this = saved then stored
     else if take (length saved) this = saved then stored @ drop (length saved) this
     else this)"

subsection \<open>The Session model\<close>

text \<open>
  \<open>Math.round((this.endTime - this.startTime) / (1000 * 60))\<close>: the difference of the
  two dates and its quotient by 60000 are each rounded to a double.
\<close>

definition minutes_between :: "date \<Rightarrow> date \<Rightarrow> real" where
  "minutes_between e b = Math_round (double (double (of_int e - of_int b) / (1000 * 60)))"

text \<open>\<open>sessionSchema.pre('save', ...)\<close>\<close>

definition pre_save :: "session_doc \<Rightarrow> session_doc" where
  "pre_save this =
    (case endTime this of
       None \<Rightarrow> this
     | Some e \<Rightarrow>
        (case startTime this of
           None \<Rightarrow> this
         | Some b \<Rightarrow> this\<lparr>duration := minutes_between e b\<rparr>))"

text \<open>
  The validators of the session schema: the required paths, the three enumerations, and
  the validators inside \<open>diagnosis\<close> and \<open>metadata\<close>. A required string must not be
  empty. \<open>save\<close> validates every path of the document, also those that were not
  assigned.
\<close>

definition session_valid :: "session_doc \<Rightarrow> bool" where
  "session_valid s =
    (sessionId s \<noteq> [] \<and>
     doctorName s \<noteq> [] \<and>
     startTime s \<noteq> None \<and>
     sessionType s \<in> set [''consultation'', ''follow-up'', ''emergency'', ''routine-checkup'', ''specialist''] \<and>
     status s \<in> set [''active'', ''completed'', ''cancelled'', ''paused''] \<and>
     priority s \<in> set [''low'', ''normal'', ''high'', ''urgent''] \<and>
     list_all (range_member 0 100 ''confidence'') (elements (diagnosis s)) \<and>
     enum_member [''excellent'', ''good'', ''fair'', ''poor''] ''recordingQuality'' (metadata s) \<and>
     enum_member [''none'', ''minimal'', ''moderate'', ''high''] ''backgroundNoise'' (metadata s))"

text \<open>
  The document Mongoose builds from a stored one: a path that the stored document lacks
  takes its default. Of the paths of a session that have a default, \<open>startTime\<close> is
  the one the record can lack; its default is \<open>Date.now\<close>, the time of the read.
\<close>

definition Session_init :: "env \<Rightarrow> session_doc \<Rightarrow> session_doc" where
  "Session_init e stored =
    (case startTime stored of
       None \<Rightarrow> stored\<lparr>startTime := Some (now e)\<rparr>
     | Some b \<Rightarrow> stored)"

text \<open>
  \<open>Session.findById(id)\<close>: an id that is not an ObjectId is a \<open>CastError\<close>; otherwise
  the stored document with that \<open>_id\<close>, if there is one.
\<close>

definition Session_findById :: "store \<Rightarrow> string \<Rightarrow> db_error + session_doc option" where
  "Session_findById st sid =
    (case ObjectId_of sid of
       None \<Rightarrow> Inl (CastError ''_id'')
     | Some i \<Rightarrow> Inr (find (\<lambda>d. oid d = i) (db_sessions st)))"

text \<open>What a save of \<open>this\<close> makes of the stored document.\<close>

definition session_delta :: "session_doc \<Rightarrow> session_doc \<Rightarrow> session_doc \<Rightarrow> session_doc" where
  "session_delta saved this stored =
    stored
      \<lparr>sessionId := changed (sessionId saved) (sessionId this) (sessionId stored),
       patient := changed (patient saved) (patient this) (patient stored),
       doctorName := changed (doctorName saved) (doctorName this) (doctorName stored),
       doctorId := changed (doctorId saved) (doctorId this) (doctorId stored),
       sessionType := changed (sessionType saved) (sessionType this) (sessionType stored),
       department := changed (department saved) (department this) (department stored),
       startTime := changed (startTime saved) (startTime this) (startTime stored),
       endTime := changed (endTime saved) (endTime this) (endTime stored),
       duration := changed (duration saved) (duration this) (duration stored),
       status := changed (status saved) (status this) (status stored),
       transcriptions := pushed (transcriptions saved) (transcriptions this) (transcriptions stored),
       summary := changed (summary saved) (summary this) (summary stored),
       symptoms := changed (symptoms saved) (symptoms this) (symptoms stored),
       diagnosis := changed (diagnosis saved) (diagnosis this) (diagnosis stored),
       prescriptions := changed (prescriptions saved) (prescriptions this) (prescriptions stored),
       followUpRequired := changed (followUpRequired saved) (followUpRequired this) (followUpRequired stored),
       followUpDate := changed (followUpDate saved) (followUpDate this) (followUpDate stored),
       priority := changed (priority saved) (priority this) (priority stored),
       notes_s := changed (notes_s saved) (notes_s this) (notes_s stored),
       metadata := changed (metadata saved) (metadata this) (metadata stored),
       isActive := changed (isActive saved) (isActive this) (isActive stored)\<rparr>"

text \<open>
  \<open>this.save()\<close> for a document that was read from the collection: validation, then the
  pre-save hook, then the write, which the stored document with the \<open>_id\<close> of \<open>this\<close>
  takes; the index on \<open>_id\<close> is unique. The write fails when the document is no longer
  in the collection. The document is returned as the hook has left it, with the new store.
\<close>

definition Session_save :: "session_doc \<Rightarrow> session_doc \<Rightarrow> store \<Rightarrow> db_error + (session_doc \<times> store)" where
  "Session_save saved this st =
    (if \<not> session_valid this then Inl (ValidationError ''Session'')
     else if find (\<lambda>d. oid d = oid this) (db_sessions st) = None then Inl DocumentNotFoundError
     else Inr (pre_save this,
               st\<lparr>db_sessions :=
                    map (\<lambda>d. if oid d = oid this then session_delta saved (pre_save this) d else d)
                      (db_sessions st)\<rparr>))"

text \<open>
  \<open>sessionSchema.methods.endSession\<close>. A document that was read from the collection
  has a start time; for one without, there is no difference of dates to round and
  \<open>duration\<close> is left as it is.
\<close>

definition session_endSession :: "date \<Rightarrow> session_doc \<Rightarrow> session_doc \<Rightarrow> store \<Rightarrow> db_error + (session_doc \<times> store)" where
  "session_endSession t saved this st =
    (let this1 = this\<lparr>endTime := Some t, status := ''completed''\<rparr>;
         this2 = (case startTime this1 of
                    None \<Rightarrow> this1
                  | Some b \<Rightarrow> this1\<lparr>duration := minutes_between t b\<rparr>)
     in Session_save saved this2 st)"

section \<open>HTTP responses\<close>

text \<open>
  \<open>res.status(c).json(obj)\<close>: the status code and the members of the object sent. A
  member is a JSON value, a date, a number, a nested object or a whole document.
\<close>

datatype payload =
    PJson json
  | PDate "date option"
  | PNumber real
  | PObj "(string \<times> payload) list"
  | PSession session_doc
  | PTranscription transcription_doc
  | PSummary summary_doc

record response =
  status_code :: nat
  body :: "(string \<times> payload) list"

definition error_reply :: "nat \<Rightarrow> string \<Rightarrow> string \<Rightarrow> response" where
  "error_reply c e m =
    \<lparr>status_code = c, body = [(''error'', PJson (JStr e)), (''message'', PJson (JStr m))]\<rparr>"

text \<open>The \<open>catch\<close> block that closes every controller method.\<close>

definition internal_error :: "string \<Rightarrow> response" where
  "internal_error m = error_reply 500 ''Internal server error'' m"

definition session_not_found :: response where
  "session_not_found = error_reply 404 ''Session not found'' ''The specified session does not exist''"


section \<open>sessionController\<close>

subsection \<open>endSession\<close>

text \<open>
  \<open>if (notes) { session.notes = notes; await session.save(); }\<close>. A value that does not
  cast to a string makes the save fail in validation.
\<close>

definition save_notes :: "schema_types \<Rightarrow> json option \<Rightarrow> session_doc \<Rightarrow> store \<Rightarrow> db_error + (session_doc \<times> store)" where
  "save_notes ty n session st =
    (case n of
       None \<Rightarrow> Inr (session, st)
     | Some v \<Rightarrow>
        if \<not> truthy v then Inr (session, st)
        else (case String_cast ty v of
                None \<Rightarrow> Inl (ValidationError ''notes'')
              | Some str \<Rightarrow> Session_save session (session\<lparr>notes_s := Some (trim str)\<rparr>) st))"

definition endSession :: "schema_types \<Rightarrow> env \<Rightarrow> string \<Rightarrow> (string \<times> json) list \<Rightarrow> store \<Rightarrow> response \<times> store" where
  "endSession ty e sid req_body st =
    (case Session_findById st sid of
       Inl err \<Rightarrow> (internal_error ''Failed to end session'', st)
     | Inr None \<Rightarrow> (session_not_found, st)
     | Inr (Some stored) \<Rightarrow>
        if status (Session_init e stored) = ''completed''
        then (error_reply 400 ''Session already completed'' ''This session has already been ended'', st)
        else
          (case session_endSession (now e) stored (Session_init e stored) st of
             Inl err \<Rightarrow> (internal_error ''Failed to end session'', st)
           | Inr (session1, st1) \<Rightarrow>
              (case save_notes ty (map_of req_body ''notes'') session1 st1 of
                 Inl err \<Rightarrow> (internal_error ''Failed to end session'', st1)
               | Inr (session2, st2) \<Rightarrow>
                  (\<lparr>status_code = 200,
                    body = [(''message'', PJson (JStr ''Session ended successfully'')),
                            (''session'', PObj [(''sessionId'', PJson (JStr (sessionId session2))),
                                               (''endTime'', PDate (endTime session2)),
                                               (''duration'', PNumber (duration session2)),
                                               (''status'', PJson (JStr (status session2)))])]\<rparr>,
                   st2))))"

subsection \<open>updateSession\<close>

text \<open>\<open>delete updates.key\<close> removes the member of that name, when there is one.\<close>

definition delete_key :: "string \<Rightarrow> (string \<times> json) list \<Rightarrow> (string \<times> json) list" where
  "delete_key k kvs = filter (\<lambda>kv. fst kv \<noteq> k) kvs"

text \<open>
  The update document handed to \<open>Session.findByIdAndUpdate\<close>. A member whose name does
  not begin with \<open>$\<close> is a path to set: Mongoose moves it under \<open>$set\<close>, where it
  takes the place of a member of the same name. A member named \<open>$set\<close>, \<open>$unset\<close>
  or \<open>$pull\<close> is that operator, applied to the paths of its operand; the repository
  itself sends \<open>{ $unset: { summary: 1 } }\<close> and \<open>{ $pull: { transcriptions: id } }\<close>
  to the same function when a summary or a transcription is deleted. These three
  operators, with an object for operand, are the part of the update language that is
  modelled: for an update document with another operator the result is \<open>None\<close>.
\<close>

datatype update_op = SetPath string json | UnsetPath string | PullPath string json

definition op_path :: "update_op \<Rightarrow> string" where
  "op_path u = (case u of SetPath p v \<Rightarrow> p | UnsetPath p \<Rightarrow> p | PullPath p v \<Rightarrow> p)"

definition is_operator :: "string \<Rightarrow> bool" where
  "is_operator k = (case k of [] \<Rightarrow> False | c # cs \<Rightarrow> c = CHR ''$'')"

definition operand :: "(string \<times> json) list \<Rightarrow> string \<Rightarrow> (string \<times> json) list option" where
  "operand updates k =
    (case map_of updates k of
       None \<Rightarrow> Some []
     | Some v \<Rightarrow> (case v of JObj kvs \<Rightarrow> Some kvs | _ \<Rightarrow> None))"

definition castUpdate :: "(string \<times> json) list \<Rightarrow> update_op list option" where
  "castUpdate updates =
    (if list_ex (\<lambda>kv. is_operator (fst kv) \<and> fst kv \<notin> set [''$set'', ''$unset'', ''$pull'']) updates
     then None
     else
       (case operand updates ''$set'' of
          None \<Rightarrow> None
        | Some sets \<Rightarrow>
           (case operand updates ''$unset'' of
              None \<Rightarrow> None
            | Some unsets \<Rightarrow>
               (case operand updates ''$pull'' of
                  None \<Rightarrow> None
                | Some pulls \<Rightarrow>
                   (let plain = filter (\<lambda>kv. \<not> is_operator (fst kv)) updates
                    in Some (map (\<lambda>kv. SetPath (fst kv) (snd kv))
                               (plain @ filter (\<lambda>kv. fst kv \<notin> set (map fst plain)) sets) @
                             map (\<lambda>kv. UnsetPath (fst kv)) unsets @
                             map (\<lambda>kv. PullPath (fst kv) (snd kv)) pulls))))))"

text \<open>
  Casting and validating one path of the session schema (\<open>runValidators: true\<close>). The
  result is the change to make to the document, or the error. The setter \<open>trim\<close> of
  a path is applied before its validators. A path the schema does not have is dropped
  (strict mode). The result is \<open>None\<close>, outside the model, for a dotted path, for the
  paths that Mongoose itself maintains, and for \<open>null\<close> given to a path that the
  record always has.
\<close>

definition required_string :: "schema_types \<Rightarrow> string \<Rightarrow> (string \<Rightarrow> string) \<Rightarrow> json \<Rightarrow> (string \<Rightarrow> session_doc \<Rightarrow> session_doc) \<Rightarrow> db_error + (session_doc \<Rightarrow> session_doc)" where
  "required_string ty p setter v f =
    (if v = JNull then Inl (ValidationError p)
     else (case String_cast ty v of
             None \<Rightarrow> Inl (CastError p)
           | Some str \<Rightarrow> if setter str = [] then Inl (ValidationError p) else Inr (f (setter str))))"

definition enum_string :: "schema_types \<Rightarrow> string list \<Rightarrow> string \<Rightarrow> json \<Rightarrow> (string \<Rightarrow> session_doc \<Rightarrow> session_doc) \<Rightarrow> (db_error + (session_doc \<Rightarrow> session_doc)) option" where
  "enum_string ty allowed p v f =
    (if v = JNull then None
     else Some (case String_cast ty v of
                  None \<Rightarrow> Inl (CastError p)
                | Some str \<Rightarrow> if str \<in> set allowed then Inr (f str) else Inl (ValidationError p)))"

definition optional_string :: "schema_types \<Rightarrow> string \<Rightarrow> json \<Rightarrow> (string option \<Rightarrow> session_doc \<Rightarrow> session_doc) \<Rightarrow> db_error + (session_doc \<Rightarrow> session_doc)" where
  "optional_string ty p v f =
    (if v = JNull then Inr (f None)
     else (case String_cast ty v of
             None \<Rightarrow> Inl (CastError p)
           | Some str \<Rightarrow> Inr (f (Some (trim str)))))"

definition optional_date :: "schema_types \<Rightarrow> string \<Rightarrow> json \<Rightarrow> (date option \<Rightarrow> session_doc \<Rightarrow> session_doc) \<Rightarrow> db_error + (session_doc \<Rightarrow> session_doc)" where
  "optional_date ty p v f =
    (if v = JNull then Inr (f None)
     else (case castDate ty v of
             None \<Rightarrow> Inl (CastError p)
           | Some d \<Rightarrow> Inr (f (Some d))))"

definition optional_ref :: "schema_types \<Rightarrow> string \<Rightarrow> json \<Rightarrow> (objectId option \<Rightarrow> session_doc \<Rightarrow> session_doc) \<Rightarrow> db_error + (session_doc \<Rightarrow> session_doc)" where
  "optional_ref ty p v f =
    (if v = JNull then Inr (f None)
     else (case ObjectId_cast ty v of
             None \<Rightarrow> Inl (CastError p)
           | Some r \<Rightarrow> Inr (f (Some r))))"

definition plain_number :: "schema_types \<Rightarrow> string \<Rightarrow> json \<Rightarrow> (real \<Rightarrow> session_doc \<Rightarrow> session_doc) \<Rightarrow> (db_error + (session_doc \<Rightarrow> session_doc)) option" where
  "plain_number ty p v f =
    (if v = JNull then None
     else Some (case Number_cast ty v of
                  None \<Rightarrow> Inl (CastError p)
                | Some r \<Rightarrow> Inr (f r)))"

definition plain_boolean :: "schema_types \<Rightarrow> string \<Rightarrow> json \<Rightarrow> (bool \<Rightarrow> session_doc \<Rightarrow> session_doc) \<Rightarrow> (db_error + (session_doc \<Rightarrow> session_doc)) option" where
  "plain_boolean ty p v f =
    (if v = JNull then None
     else Some (case Boolean_cast ty v of
                  None \<Rightarrow> Inl (CastError p)
                | Some b \<Rightarrow> Inr (f b)))"

definition structured :: "schema_types \<Rightarrow> string \<Rightarrow> json \<Rightarrow> (json \<Rightarrow> bool) \<Rightarrow> (json \<Rightarrow> session_doc \<Rightarrow> session_doc) \<Rightarrow> db_error + (session_doc \<Rightarrow> session_doc)" where
  "structured ty p v valid f =
    (case castStructured ty p v of
       None \<Rightarrow> Inl (CastError p)
     | Some w \<Rightarrow> if valid w then Inr (f w) else Inl (ValidationError p))"

fun cast_refs :: "schema_types \<Rightarrow> json list \<Rightarrow> objectId list option" where
  "cast_refs ty [] = Some []"
| "cast_refs ty (v # vs) =
    (case ObjectId_cast ty v of
       None \<Rightarrow> None
     | Some r \<Rightarrow> (case cast_refs ty vs of None \<Rightarrow> None | Some rs \<Rightarrow> Some (r # rs)))"

definition cast_set :: "schema_types \<Rightarrow> string \<Rightarrow> json \<Rightarrow> (db_error + (session_doc \<Rightarrow> session_doc)) option" where
  "cast_set ty p v =
    (if CHR ''.'' \<in> set p \<or> p \<in> set [''_id'', ''__v'', ''createdAt'', ''updatedAt''] then None
     else if p = ''sessionId'' then Some (required_string ty p (\<lambda>x. x) v (\<lambda>x s. s\<lparr>sessionId := x\<rparr>))
     else if p = ''patient'' then Some (optional_ref ty p v (\<lambda>x s. s\<lparr>patient := x\<rparr>))
     else if p = ''doctorName'' then Some (required_string ty p trim v (\<lambda>x s. s\<lparr>doctorName := x\<rparr>))
     else if p = ''doctorId'' then Some (optional_string ty p v (\<lambda>x s. s\<lparr>doctorId := x\<rparr>))
     else if p = ''sessionType'' then
       enum_string ty [''consultation'', ''follow-up'', ''emergency'', ''routine-checkup'', ''specialist'']
         p v (\<lambda>x s. s\<lparr>sessionType := x\<rparr>)
     else if p = ''department'' then Some (optional_string ty p v (\<lambda>x s. s\<lparr>department := x\<rparr>))
     else if p = ''startTime'' then
       Some (if v = JNull then Inl (ValidationError p)
             else optional_date ty p v (\<lambda>x s. s\<lparr>startTime := x\<rparr>))
     else if p = ''endTime'' then Some (optional_date ty p v (\<lambda>x s. s\<lparr>endTime := x\<rparr>))
     else if p = ''duration'' then plain_number ty p v (\<lambda>x s. s\<lparr>duration := x\<rparr>)
     else if p = ''status'' then
       enum_string ty [''active'', ''completed'', ''cancelled'', ''paused'']
         p v (\<lambda>x s. s\<lparr>status := x\<rparr>)
     else if p = ''transcriptions'' then
       (case v of
          JArr vs \<Rightarrow>
            Some (case cast_refs ty vs of
                    None \<Rightarrow> Inl (CastError p)
                  | Some rs \<Rightarrow> Inr (\<lambda>s. s\<lparr>transcriptions := rs\<rparr>))
        | _ \<Rightarrow> None)
     else if p = ''summary'' then Some (optional_ref ty p v (\<lambda>x s. s\<lparr>summary := x\<rparr>))
     else if p = ''symptoms'' then
       Some (structured ty p v (\<lambda>w. True) (\<lambda>x s. s\<lparr>symptoms := x\<rparr>))
     else if p = ''diagnosis'' then
       Some (structured ty p v (\<lambda>w. list_all (range_member 0 100 ''confidence'') (elements w))
               (\<lambda>x s. s\<lparr>diagnosis := x\<rparr>))
     else if p = ''prescriptions'' then
       Some (structured ty p v (\<lambda>w. True) (\<lambda>x s. s\<lparr>prescriptions := x\<rparr>))
     else if p = ''followUpRequired'' then plain_boolean ty p v (\<lambda>x s. s\<lparr>followUpRequired := x\<rparr>)
     else if p = ''followUpDate'' then Some (optional_date ty p v (\<lambda>x s. s\<lparr>followUpDate := x\<rparr>))
     else if p = ''priority'' then
       enum_string ty [''low'', ''normal'', ''high'', ''urgent''] p v (\<lambda>x s. s\<lparr>priority := x\<rparr>)
     else if p = ''notes'' then Some (optional_string ty p v (\<lambda>x s. s\<lparr>notes_s := x\<rparr>))
     else if p = ''metadata'' then
       Some (structured ty p v
               (\<lambda>w. enum_member [''excellent'', ''good'', ''fair'', ''poor''] ''recordingQuality'' w \<and>
                    enum_member [''none'', ''minimal'', ''moderate'', ''high''] ''backgroundNoise'' w)
               (\<lambda>x s. s\<lparr>metadata := x\<rparr>))
     else if p = ''isActive'' then plain_boolean ty p v (\<lambda>x s. s\<lparr>isActive := x\<rparr>)
     else Some (Inr (\<lambda>s. s)))"

text \<open>
  \<open>$unset\<close> of one path. Unsetting a required path is a validation error; a path with a
  default reads as its default once it is unset, an array as the empty array.
\<close>

definition cast_unset :: "string \<Rightarrow> (db_error + (session_doc \<Rightarrow> session_doc)) option" where
  "cast_unset p =
    (if CHR ''.'' \<in> set p \<or> p \<in> set [''_id'', ''__v'', ''createdAt'', ''updatedAt''] then None
     else if p \<in> set [''sessionId'', ''doctorName'', ''startTime''] then Some (Inl (ValidationError p))
     else if p = ''patient'' then Some (Inr (\<lambda>s. s\<lparr>patient := None\<rparr>))
     else if p = ''doctorId'' then Some (Inr (\<lambda>s. s\<lparr>doctorId := None\<rparr>))
     else if p = ''sessionType'' then Some (Inr (\<lambda>s. s\<lparr>sessionType := ''consultation''\<rparr>))
     else if p = ''department'' then Some (Inr (\<lambda>s. s\<lparr>department := None\<rparr>))
     else if p = ''endTime'' then Some (Inr (\<lambda>s. s\<lparr>endTime := None\<rparr>))
     else if p = ''duration'' then Some (Inr (\<lambda>s. s\<lparr>duration := 0\<rparr>))
     else if p = ''status'' then Some (Inr (\<lambda>s. s\<lparr>status := ''active''\<rparr>))
     else if p = ''transcriptions'' then Some (Inr (\<lambda>s. s\<lparr>transcriptions := []\<rparr>))
     else if p = ''summary'' then Some (Inr (\<lambda>s. s\<lparr>summary := None\<rparr>))
     else if p = ''symptoms'' then Some (Inr (\<lambda>s. s\<lparr>symptoms := JArr []\<rparr>))
     else if p = ''diagnosis'' then Some (Inr (\<lambda>s. s\<lparr>diagnosis := JArr []\<rparr>))
     else if p = ''prescriptions'' then Some (Inr (\<lambda>s. s\<lparr>prescriptions := JArr []\<rparr>))
     else if p = ''followUpRequired'' then Some (Inr (\<lambda>s. s\<lparr>followUpRequired := False\<rparr>))
     else if p = ''followUpDate'' then Some (Inr (\<lambda>s. s\<lparr>followUpDate := None\<rparr>))
     else if p = ''priority'' then Some (Inr (\<lambda>s. s\<lparr>priority := ''normal''\<rparr>))
     else if p = ''notes'' then Some (Inr (\<lambda>s. s\<lparr>notes_s := None\<rparr>))
     else if p = ''metadata'' then Some (Inr (\<lambda>s. s\<lparr>metadata := JObj [(''language'', JStr ''en'')]\<rparr>))
     else if p = ''isActive'' then Some (Inr (\<lambda>s. s\<lparr>isActive := True\<rparr>))
     else Some (Inr (\<lambda>s. s)))"

text \<open>
  \<open>$pull\<close> of a value from one path: from the array of transcription references it
  removes the references equal to the value.
\<close>

definition cast_pull :: "schema_types \<Rightarrow> string \<Rightarrow> json \<Rightarrow> (db_error + (session_doc \<Rightarrow> session_doc)) option" where
  "cast_pull ty p v =
    (if p = ''transcriptions'' then
       Some (case ObjectId_cast ty v of
               None \<Rightarrow> Inl (CastError p)
             | Some r \<Rightarrow> Inr (\<lambda>s. s\<lparr>transcriptions := removeAll r (transcriptions s)\<rparr>))
     else None)"

fun cast_ops :: "schema_types \<Rightarrow> update_op list \<Rightarrow> (db_error + (session_doc \<Rightarrow> session_doc)) option" where
  "cast_ops ty [] = Some (Inr (\<lambda>s. s))"
| "cast_ops ty (u # us) =
    (case (case u of
             SetPath p v \<Rightarrow> cast_set ty p v
           | UnsetPath p \<Rightarrow> cast_unset p
           | PullPath p v \<Rightarrow> cast_pull ty p v) of
       None \<Rightarrow> None
     | Some r \<Rightarrow>
        (case cast_ops ty us of
           None \<Rightarrow> None
         | Some rs \<Rightarrow>
            Some (case r of
                    Inl err \<Rightarrow> Inl err
                  | Inr f \<Rightarrow> (case rs of Inl err \<Rightarrow> Inl err | Inr g \<Rightarrow> Inr (\<lambda>s. g (f s))))))"

text \<open>The paths of the session schema. MongoDB refuses an update that names one of them twice.\<close>

definition session_paths :: "string list" where
  "session_paths =
    [''sessionId'', ''patient'', ''doctorName'', ''doctorId'', ''sessionType'', ''department'',
     ''startTime'', ''endTime'', ''duration'', ''status'', ''transcriptions'', ''summary'',
     ''symptoms'', ''diagnosis'', ''prescriptions'', ''followUpRequired'', ''followUpDate'',
     ''priority'', ''notes'', ''metadata'', ''isActive'']"

definition modelled_update :: "schema_types \<Rightarrow> (string \<times> json) list \<Rightarrow> (db_error + (session_doc \<Rightarrow> session_doc)) option" where
  "modelled_update ty updates =
    (case castUpdate updates of
       None \<Rightarrow> None
     | Some ops \<Rightarrow>
        (case cast_ops ty ops of
           None \<Rightarrow> None
         | Some r \<Rightarrow>
            Some (case r of
                    Inl err \<Rightarrow> Inl err
                  | Inr f \<Rightarrow>
                     if distinct (filter (\<lambda>p. p \<in> set session_paths) (map op_path ops))
                     then Inr f
                     else Inl (MongoServerError ''conflict''))))"

text \<open>
  \<open>Session.findByIdAndUpdate(id, updates, { new: true, runValidators: true })\<close>. The
  hooks of \<open>save\<close> do not run. The two delete handlers call the function without
  \<open>runValidators\<close>; their update documents name no path that has a validator.
\<close>

definition Session_findByIdAndUpdate :: "schema_types \<Rightarrow> store \<Rightarrow> string \<Rightarrow> (string \<times> json) list \<Rightarrow> db_error + (session_doc option \<times> store)" where
  "Session_findByIdAndUpdate ty st sid updates =
    (case ObjectId_of sid of
       None \<Rightarrow> Inl (CastError ''_id'')
     | Some i \<Rightarrow>
        (case (case modelled_update ty updates of
                 None \<Rightarrow> otherUpdate ty updates
               | Some r \<Rightarrow> r) of
           Inl err \<Rightarrow> Inl err
         | Inr f \<Rightarrow>
            (case find (\<lambda>d. oid d = i) (db_sessions st) of
               None \<Rightarrow> Inr (None, st)
             | Some d \<Rightarrow>
                Inr (Some (f d),
                     st\<lparr>db_sessions := map (\<lambda>x. if oid x = i then f x else x) (db_sessions st)\<rparr>))))"

text \<open>
  The answer carries the session as it is stored after the update; the population of
  \<open>patient\<close> is not shown.
\<close>

definition updateSession :: "schema_types \<Rightarrow> string \<Rightarrow> (string \<times> json) list \<Rightarrow> store \<Rightarrow> response \<times> store" where
  "updateSession ty sid req_body st =
    (let updates =
       delete_key ''summary''
         (delete_key ''transcriptions''
           (delete_key ''startTime''
             (delete_key ''sessionId'' req_body)))
     in case Session_findByIdAndUpdate ty st sid updates of
          Inl err \<Rightarrow> (internal_error ''Failed to update session'', st)
        | Inr (None, st') \<Rightarrow> (session_not_found, st)
        | Inr (Some session, st') \<Rightarrow>
            (\<lparr>status_code = 200,
              body = [(''message'', PJson (JStr ''Session updated successfully'')),
                      (''session'', PSession session)]\<rparr>,
             st'))"

section \<open>The WebSocket channel\<close>

text \<open>
  An emission of the server: \<open>io.to(room).emit(event, payload)\<close> and
  \<open>socket.to(room).emit(event, payload)\<close> address a room, \<open>socket.emit(event, payload)\<close>
  the connected client alone. The room is the JavaScript value given to \<open>to\<close>;
  \<open>None\<close> is \<open>undefined\<close>.
\<close>

datatype target = ToRoom "json option" | ToSender

record emission =
  target :: target
  event :: string
  payload :: json

text \<open>
  The settings of the Express application that the controllers read:
  \<open>req.app.get('io')\<close> and, in the last error handler, \<open>NODE_ENV\<close>.
\<close>

record app =
  has_io :: bool
  development :: bool

text \<open>The server calls \<open>app.set('io', io)\<close> before it mounts the routes.\<close>

definition server_app :: "bool \<Rightarrow> app" where
  "server_app dev = \<lparr>has_io = True, development = dev\<rparr>"

definition to_session :: "app \<Rightarrow> json \<Rightarrow> string \<Rightarrow> json \<Rightarrow> emission list" where
  "to_session a sid ev p =
    (if has_io a then [\<lparr>target = ToRoom (Some sid), event = ev, payload = p\<rparr>] else [])"


section \<open>transcriptionController\<close>

subsection \<open>The Transcription model\<close>

text \<open>The validators of the transcription schema; \<open>save\<close> runs all of them.\<close>

definition transcription_valid :: "transcription_doc \<Rightarrow> bool" where
  "transcription_valid t =
    (transcriptionId t \<noteq> [] \<and>
     (case confidence t of None \<Rightarrow> True | Some c \<Rightarrow> 0 \<le> c \<and> c \<le> 100) \<and>
     speaker t \<in> set [''doctor'', ''patient'', ''unknown''] \<and>
     status_t t \<in> set [''processing'', ''completed'', ''failed''])"

text \<open>
  The document built from a stored one: \<open>confidence\<close> is the path with a default that
  the record can lack, and its default is 0.
\<close>

definition Transcription_init :: "transcription_doc \<Rightarrow> transcription_doc" where
  "Transcription_init stored =
    (case confidence stored of
       None \<Rightarrow> stored\<lparr>confidence := Some 0\<rparr>
     | Some c \<Rightarrow> stored)"

text \<open>
  \<open>save\<close> of a new document validates it and inserts it; the unique indexes on
  \<open>_id\<close> and on \<open>transcriptionId\<close> refuse a duplicate.
\<close>

definition Transcription_insert :: "transcription_doc \<Rightarrow> store \<Rightarrow> db_error + store" where
  "Transcription_insert doc st =
    (if \<not> transcription_valid doc then Inl (ValidationError ''Transcription'')
     else if find (\<lambda>d. oid_t d = oid_t doc \<or> transcriptionId d = transcriptionId doc) (db_transcriptions st) \<noteq> None
     then Inl (MongoServerError ''E11000'')
     else Inr (st\<lparr>db_transcriptions := db_transcriptions st @ [doc]\<rparr>))"

text \<open>What a save of \<open>this\<close> makes of the stored document.\<close>

definition transcription_delta :: "transcription_doc \<Rightarrow> transcription_doc \<Rightarrow> transcription_doc \<Rightarrow> transcription_doc" where
  "transcription_delta saved this stored =
    stored
      \<lparr>transcriptionId := changed (transcriptionId saved) (transcriptionId this) (transcriptionId stored),
       session_t := changed (session_t saved) (session_t this) (session_t stored),
       audioFile := changed (audioFile saved) (audioFile this) (audioFile stored),
       transcriptionText := changed (transcriptionText saved) (transcriptionText this) (transcriptionText stored),
       confidence := changed (confidence saved) (confidence this) (confidence stored),
       language_t := changed (language_t saved) (language_t this) (language_t stored),
       speaker := changed (speaker saved) (speaker this) (speaker stored),
       processingMetadata := changed (processingMetadata saved) (processingMetadata this) (processingMetadata stored),
       status_t := changed (status_t saved) (status_t this) (status_t stored),
       isEdited := changed (isEdited saved) (isEdited this) (isEdited stored),
       editHistory := pushed (editHistory saved) (editHistory this) (editHistory stored)\<rparr>"

text \<open>\<open>save\<close> of a document that was read from the collection.\<close>

definition Transcription_save :: "transcription_doc \<Rightarrow> transcription_doc \<Rightarrow> store \<Rightarrow> db_error + store" where
  "Transcription_save saved this st =
    (if \<not> transcription_valid this then Inl (ValidationError ''Transcription'')
     else if find (\<lambda>d. oid_t d = oid_t this) (db_transcriptions st) = None then Inl DocumentNotFoundError
     else Inr (st\<lparr>db_transcriptions :=
                    map (\<lambda>d. if oid_t d = oid_t this then transcription_delta saved this d else d)
                      (db_transcriptions st)\<rparr>))"

text \<open>\<open>Transcription.findOne({ transcriptionId })\<close>: the stored document.\<close>

definition Transcription_findOne :: "store \<Rightarrow> string \<Rightarrow> transcription_doc option" where
  "Transcription_findOne st tid = find (\<lambda>d. transcriptionId d = tid) (db_transcriptions st)"

definition error_message :: "db_error \<Rightarrow> string" where
  "error_message err =
    (case err of
       CastError p \<Rightarrow> ''Cast failed at path '' @ p
     | ValidationError p \<Rightarrow> p @ '' validation failed''
     | DocumentNotFoundError \<Rightarrow> ''No document found''
     | MongoServerError m \<Rightarrow> m)"

subsection \<open>uploadAudio\<close>

text \<open>
  The file information multer leaves in \<open>req.file\<close>; \<open>filename_p\<close> and \<open>path_p\<close> are
  the names the disk storage gave the file.
\<close>

record file_part =
  fieldname :: string
  originalname :: string
  mimetype :: string
  size_p :: nat
  filename_p :: string
  path_p :: string

text \<open>
  What the handler leaves running when it returns: the call of
  \<open>transcriptionService.transcribeAudio\<close> with the two callbacks of its promise. The
  callbacks close over the documents \<open>transcription\<close> and \<open>session\<close> of the handler
  and over \<open>sessionId\<close>. Beside each document the job holds the document as it was
  read or last saved.
\<close>

record upload_job =
  job_transcription :: transcription_doc
  job_saved :: transcription_doc
  job_session :: session_doc
  job_session_saved :: session_doc
  job_sessionId :: string
  job_path :: string
  job_language :: json

text \<open>What \<open>transcribeAudio\<close> resolves to: \<open>{ text, language, segments, metadata }\<close>.\<close>

record transcribe_result =
  r_text :: string
  r_language :: string
  r_segments :: json
  r_metadata :: "(string \<times> json) list"

text \<open>
  \<open>Session.findById(sessionId)\<close> for an identifier taken from the request body: a
  value that is not a string does not cast to an ObjectId.
\<close>

definition find_session_of :: "store \<Rightarrow> json option \<Rightarrow> db_error + (string \<times> session_doc) option" where
  "find_session_of st v =
    (case v of
       Some (JStr sid) \<Rightarrow>
         (case Session_findById st sid of
            Inl err \<Rightarrow> Inl err
          | Inr None \<Rightarrow> Inr None
          | Inr (Some stored) \<Rightarrow> Inr (Some (sid, stored)))
     | _ \<Rightarrow> Inl (CastError ''_id''))"

text \<open>
  \<open>new Transcription({ session: sessionId, audioFile: ..., transcriptionText: '', status: 'processing' })\<close>
  with the defaults of the schema; \<open>sid\<close> is the ObjectId that \<open>sessionId\<close> casts to.
\<close>

definition new_Transcription :: "env \<Rightarrow> objectId \<Rightarrow> file_part \<Rightarrow> transcription_doc" where
  "new_Transcription e sid audio =
    \<lparr>oid_t = newObjectId e,
     transcriptionId = ''trans_'' @ randomSuffix e,
     session_t = sid,
     audioFile = \<lparr>originalName = originalname audio, filename = filename_p audio,
                  path_f = path_p audio, size_f = size_p audio, mimeType = mimetype audio\<rparr>,
     transcriptionText = [],
     confidence = Some 0,
     language_t = ''en'',
     speaker = ''unknown'',
     processingMetadata = JObj [],
     status_t = ''processing'',
     isEdited = False,
     editHistory = []\<rparr>"

text \<open>\<open>req.body.language || 'en'\<close>\<close>

definition language_of :: "(string \<times> json) list \<Rightarrow> json" where
  "language_of req_body =
    (case map_of req_body ''language'' of
       None \<Rightarrow> JStr ''en''
     | Some l \<Rightarrow> if truthy l then l else JStr ''en'')"

text \<open>
  The session was found under the ObjectId that \<open>sessionId\<close> casts to, so that
  ObjectId is the \<open>_id\<close> of the session.
\<close>

definition uploadAudio :: "env \<Rightarrow> (string \<times> json) list \<Rightarrow> file_part option \<Rightarrow> store \<Rightarrow> response \<times> store \<times> upload_job option" where
  "uploadAudio e req_body req_file st =
    (case req_file of
       None \<Rightarrow> (error_reply 400 ''No audio file provided'' ''Please upload an audio file'', st, None)
     | Some audio \<Rightarrow>
        if \<not> truthy_opt (map_of req_body ''sessionId'')
        then (error_reply 400 ''Session ID required'' ''Please provide a valid session ID'', st, None)
        else
          (case find_session_of st (map_of req_body ''sessionId'') of
             Inl err \<Rightarrow> (internal_error ''Failed to process audio upload'', st, None)
           | Inr None \<Rightarrow> (session_not_found, st, None)
           | Inr (Some (sid, stored)) \<Rightarrow>
              (let transcription = new_Transcription e (oid stored) audio
               in case Transcription_insert transcription st of
                    Inl err \<Rightarrow> (internal_error ''Failed to process audio upload'', st, None)
                  | Inr st1 \<Rightarrow>
                     (\<lparr>status_code = 202,
                       body = [(''message'', PJson (JStr ''Audio uploaded successfully, transcription in progress'')),
                               (''transcriptionId'', PJson (JStr (transcriptionId transcription))),
                               (''status'', PJson (JStr ''processing''))]\<rparr>,
                      st1,
                      Some \<lparr>job_transcription = transcription,
                            job_saved = transcription,
                            job_session = Session_init e stored,
                            job_session_saved = stored,
                            job_sessionId = sid,
                            job_path = path_p audio,
                            job_language = language_of req_body\<rparr>))))"

text \<open>
  The \<open>.catch\<close> callback. It also receives what the \<open>.then\<close> callback throws. When
  its own save fails the promise is left rejected and nothing is emitted.
\<close>

definition upload_rejected :: "app \<Rightarrow> upload_job \<Rightarrow> string \<Rightarrow> store \<Rightarrow> store \<times> emission list" where
  "upload_rejected a job msg st =
    (let transcription = (job_transcription job)\<lparr>status_t := ''failed''\<rparr>
     in case Transcription_save (job_saved job) transcription st of
          Inl err \<Rightarrow> (st, [])
        | Inr st1 \<Rightarrow>
            (st1, to_session a (JStr (job_sessionId job)) ''transcription-failed''
                    (JObj [(''transcriptionId'', JStr (transcriptionId transcription)),
                           (''error'', JStr msg)])))"

text \<open>
  The \<open>.then\<close> callback. The result of the service has no member \<open>confidence\<close>, so
  \<open>result.confidence\<close> is \<open>undefined\<close>: the path is unset and the member is left out
  of the event. Of \<open>result.metadata\<close> the schema keeps the members it declares.
\<close>

definition upload_fulfilled :: "app \<Rightarrow> upload_job \<Rightarrow> transcribe_result \<Rightarrow> store \<Rightarrow> store \<times> emission list" where
  "upload_fulfilled a job result st =
    (let transcription = (job_transcription job)
           \<lparr>transcriptionText := r_text result,
            confidence := None,
            language_t := r_language result,
            processingMetadata :=
              JObj (filter (\<lambda>kv. fst kv \<in> set [''model'', ''processingTime'', ''tokenUsage'']) (r_metadata result)),
            status_t := ''completed''\<rparr>
     in case Transcription_save (job_saved job) transcription st of
          Inl err \<Rightarrow>
            upload_rejected a (job\<lparr>job_transcription := transcription\<rparr>) (error_message err) st
        | Inr st1 \<Rightarrow>
           (let session = (job_session job)
                  \<lparr>transcriptions := transcriptions (job_session job) @ [oid_t transcription]\<rparr>
            in case Session_save (job_session_saved job) session st1 of
                 Inl err \<Rightarrow>
                   upload_rejected a (job\<lparr>job_transcription := transcription, job_saved := transcription\<rparr>)
                     (error_message err) st1
               | Inr (session1, st2) \<Rightarrow>
                  (st2, to_session a (JStr (job_sessionId job)) ''transcription-completed''
                          (JObj [(''transcriptionId'', JStr (transcriptionId transcription)),
                                 (''text'', JStr (r_text result))]))))"

subsection \<open>updateTranscription\<close>

text \<open>
  The condition \<open>transcriptionText && transcriptionText !== transcription.transcriptionText\<close>,
  the body of that \<open>if\<close>, and the body of \<open>if (speaker)\<close>. A value that does not
  cast to a string makes the save that follows fail, which is the error returned here.
\<close>

definition text_edited :: "json option \<Rightarrow> transcription_doc \<Rightarrow> bool" where
  "text_edited txt this =
    (case txt of None \<Rightarrow> False | Some v \<Rightarrow> truthy v \<and> v \<noteq> JStr (transcriptionText this))"

definition edit_text :: "schema_types \<Rightarrow> date \<Rightarrow> json option \<Rightarrow> json option \<Rightarrow> transcription_doc \<Rightarrow> db_error + transcription_doc" where
  "edit_text ty t txt who this =
    (case txt of
       None \<Rightarrow> Inr this
     | Some v \<Rightarrow>
        if text_edited txt this then
          (case String_cast ty v of
             None \<Rightarrow> Inl (ValidationError ''transcriptionText'')
           | Some new \<Rightarrow>
              (case (case who of
                       None \<Rightarrow> Some ''unknown''
                     | Some w \<Rightarrow> if truthy w then String_cast ty w else Some ''unknown'') of
                 None \<Rightarrow> Inl (ValidationError ''editHistory'')
               | Some editor \<Rightarrow>
                  Inr (this\<lparr>editHistory := editHistory this @
                               [\<lparr>originalText = transcriptionText this, editedText = new,
                                 editedAt = t, editedBy = editor\<rparr>],
                            transcriptionText := new,
                            isEdited := True\<rparr>)))
        else Inr this)"

definition set_speaker :: "schema_types \<Rightarrow> json option \<Rightarrow> transcription_doc \<Rightarrow> db_error + transcription_doc" where
  "set_speaker ty sp this =
    (case sp of
       None \<Rightarrow> Inr this
     | Some v \<Rightarrow>
        if truthy v then
          (case String_cast ty v of
             None \<Rightarrow> Inl (ValidationError ''speaker'')
           | Some str \<Rightarrow> Inr (this\<lparr>speaker := str\<rparr>))
        else Inr this)"

definition updateTranscription :: "schema_types \<Rightarrow> env \<Rightarrow> string \<Rightarrow> (string \<times> json) list \<Rightarrow> store \<Rightarrow> response \<times> store" where
  "updateTranscription ty e tid req_body st =
    (case Transcription_findOne st tid of
       None \<Rightarrow> (error_reply 404 ''Transcription not found'' ''The specified transcription does not exist'', st)
     | Some stored \<Rightarrow>
        (case edit_text ty (now e) (map_of req_body ''transcriptionText'') (map_of req_body ''editedBy'')
                (Transcription_init stored) of
           Inl err \<Rightarrow> (internal_error ''Failed to update transcription'', st)
         | Inr t1 \<Rightarrow>
            (case set_speaker ty (map_of req_body ''speaker'') t1 of
               Inl err \<Rightarrow> (internal_error ''Failed to update transcription'', st)
             | Inr t2 \<Rightarrow>
                (case Transcription_save stored t2 st of
                   Inl err \<Rightarrow> (internal_error ''Failed to update transcription'', st)
                 | Inr st1 \<Rightarrow>
                    (\<lparr>status_code = 200,
                      body = [(''message'', PJson (JStr ''Transcription updated successfully'')),
                              (''transcription'', PTranscription t2)]\<rparr>,
                     st1)))))"

subsection \<open>deleteTranscription\<close>

text \<open>\<open>Model.findOneAndDelete(filter)\<close> removes the first document the filter matches.\<close>

fun delete_first :: "('a \<Rightarrow> bool) \<Rightarrow> 'a list \<Rightarrow> 'a list" where
  "delete_first P [] = []"
| "delete_first P (d # ds) = (if P d then ds else d # delete_first P ds)"

text \<open>The deletion of the audio file from the disk is not part of the model.\<close>

definition deleteTranscription :: "schema_types \<Rightarrow> string \<Rightarrow> store \<Rightarrow> response \<times> store" where
  "deleteTranscription ty tid st =
    (case Transcription_findOne st tid of
       None \<Rightarrow> (error_reply 404 ''Transcription not found'' ''The specified transcription does not exist'', st)
     | Some transcription \<Rightarrow>
        (case Session_findByIdAndUpdate ty st (session_t transcription)
                [(''$pull'', JObj [(''transcriptions'', JStr (oid_t transcription))])] of
           Inl err \<Rightarrow> (internal_error ''Failed to delete transcription'', st)
         | Inr (updated, st1) \<Rightarrow>
            (\<lparr>status_code = 200,
              body = [(''message'', PJson (JStr ''Transcription deleted successfully''))]\<rparr>,
             st1\<lparr>db_transcriptions :=
                   delete_first (\<lambda>d. transcriptionId d = tid) (db_transcriptions st1)\<rparr>)))"

section \<open>File uploads\<close>

text \<open>
  Multer hands each file part of a multipart request to the file filter of the route and
  then to the storage. With \<open>upload.single(field)\<close> one file is expected in the named
  field: a file in another field, or a second file, is \<open>LIMIT_UNEXPECTED_FILE\<close>; a file
  the filter refuses with an error ends the upload with that error; a file longer than
  the limit is \<open>LIMIT_FILE_SIZE\<close>. The first error ends the upload.
\<close>

datatype upload_error =
    MulterError string string
  | PlainError string

definition err_message :: "upload_error \<Rightarrow> string" where
  "err_message err = (case err of MulterError c m \<Rightarrow> m | PlainError m \<Rightarrow> m)"

fun multer_files :: "(file_part \<Rightarrow> upload_error + bool) \<Rightarrow> nat \<Rightarrow> string \<Rightarrow> nat \<Rightarrow> file_part list \<Rightarrow> upload_error + file_part list" where
  "multer_files flt limit field filesLeft [] = Inr []"
| "multer_files flt limit field filesLeft (f # fs) =
    (if fieldname f \<noteq> field \<or> filesLeft = 0
     then Inl (MulterError ''LIMIT_UNEXPECTED_FILE'' ''Unexpected field'')
     else (case flt f of
             Inl err \<Rightarrow> Inl err
           | Inr False \<Rightarrow> multer_files flt limit field (filesLeft - 1) fs
           | Inr True \<Rightarrow>
              if limit < size_p f then Inl (MulterError ''LIMIT_FILE_SIZE'' ''File too large'')
              else (case multer_files flt limit field (filesLeft - 1) fs of
                      Inl err \<Rightarrow> Inl err
                    | Inr accepted \<Rightarrow> Inr (f # accepted))))"

text \<open>\<open>multer({ fileFilter, limits: { fileSize } }).single(field)\<close>: the value of \<open>req.file\<close>.\<close>

definition multer_single :: "(file_part \<Rightarrow> upload_error + bool) \<Rightarrow> nat \<Rightarrow> string \<Rightarrow> file_part list \<Rightarrow> upload_error + file_part option" where
  "multer_single flt limit field parts =
    (case multer_files flt limit field 1 parts of
       Inl err \<Rightarrow> Inl err
     | Inr accepted \<Rightarrow> Inr (case accepted of [] \<Rightarrow> None | f # fs \<Rightarrow> Some f))"

subsection \<open>The routes of the router\<close>

definition allowedMimes :: "string list" where
  "allowedMimes =
    [''audio/wav'',
     ''audio/mpeg'',
     ''audio/mp3'',
     ''audio/mp4'',
     ''audio/m4a'',
     ''audio/webm'',
     ''audio/ogg'']"

definition fileFilter :: "file_part \<Rightarrow> upload_error + bool" where
  "fileFilter file =
    (if mimetype file \<in> set allowedMimes then Inr True
     else Inl (PlainError ''Invalid file type. Only audio files are allowed.''))"

text \<open>
  The error handler at the end of the router. \<open>None\<close> is \<open>next(error)\<close>, which
  passes the error on to the error handler of the application.
\<close>

definition router_error_handler :: "upload_error \<Rightarrow> response option" where
  "router_error_handler error =
    (case (case error of
             MulterError c m \<Rightarrow>
               if c = ''LIMIT_FILE_SIZE''
               then Some (error_reply 400 ''File too large'' ''Audio file must be smaller than 50MB'')
               else if c = ''LIMIT_UNEXPECTED_FILE''
               then Some (error_reply 400 ''Unexpected file'' ''Only one audio file is allowed'')
               else None
           | PlainError m \<Rightarrow> None) of
       Some r \<Rightarrow> Some r
     | None \<Rightarrow>
        if err_message error = ''Invalid file type. Only audio files are allowed.''
        then Some (error_reply 400 ''Invalid file type''
                     ''Only audio files (WAV, MP3, MP4, M4A, WebM, OGG) are allowed'')
        else None)"

text \<open>
  The error handler of the application. An upload error has neither a \<open>type\<close> nor a
  \<open>status\<close>, so the answer is 500.
\<close>

definition app_error_handler :: "app \<Rightarrow> upload_error \<Rightarrow> response" where
  "app_error_handler a err =
    error_reply 500 ''Internal Server Error''
      (if development a then err_message err else ''Something went wrong'')"

text \<open>
  \<open>router.post('/transcribe/upload', upload.single('audio'), transcriptionController.uploadAudio)\<close>
  with the two error handlers behind it. The rate limiter in front of all routes answers
  429 by itself; a route is modelled for a request it has let through.
\<close>

definition route_transcribe_upload :: "app \<Rightarrow> env \<Rightarrow> file_part list \<Rightarrow> (string \<times> json) list \<Rightarrow> store \<Rightarrow> response \<times> store \<times> upload_job option" where
  "route_transcribe_upload a e parts req_body st =
    (case multer_single fileFilter (50 * 1024 * 1024) ''audio'' parts of
       Inl err \<Rightarrow>
         (case router_error_handler err of
            Some r \<Rightarrow> (r, st, None)
          | None \<Rightarrow> (app_error_handler a err, st, None))
     | Inr req_file \<Rightarrow> uploadAudio e req_body req_file st)"

subsection \<open>startStreamTranscription\<close>

text \<open>
  The object literal of the controller has two members of this name; the later one is
  the method. It runs its own multer instance, without a file filter, and awaits the
  transcription before it answers, so the outcome of the service is an argument:
  \<open>Inl\<close> the message of the error thrown, \<open>Inr\<close> the result.
\<close>

definition no_filter :: "file_part \<Rightarrow> upload_error + bool" where
  "no_filter file = Inr True"

definition startStreamTranscription :: "app \<Rightarrow> file_part list \<Rightarrow> (string \<times> json) list \<Rightarrow> string + transcribe_result \<Rightarrow> response \<times> emission list" where
  "startStreamTranscription a parts req_body outcome =
    (case multer_single no_filter (10 * 1024 * 1024) ''audio'' parts of
       Inl err \<Rightarrow> (error_reply 400 ''Upload error'' (err_message err), [])
     | Inr audio \<Rightarrow>
        (case map_of req_body ''sessionId'' of
           None \<Rightarrow> (error_reply 400 ''Missing required fields'' ''sessionId and audio file are required'', [])
         | Some sid \<Rightarrow>
            if \<not> truthy sid \<or> audio = None
            then (error_reply 400 ''Missing required fields'' ''sessionId and audio file are required'', [])
            else
              (case outcome of
                 Inl msg \<Rightarrow>
                   (error_reply 500 ''Internal server error''
                      (if msg = [] then ''Failed to process live transcription'' else msg), [])
               | Inr result \<Rightarrow>
                   (\<lparr>status_code = 200,
                     body = [(''message'', PJson (JStr ''Live transcription processed'')),
                             (''sessionId'', PJson sid)] @
                            (case map_of req_body ''recordingId'' of
                               None \<Rightarrow> []
                             | Some r \<Rightarrow> [(''recordingId'', PJson r)]) @
                            [(''text'', PJson (JStr (r_text result)))]\<rparr>,
                    if r_text result \<noteq> [] then
                      to_session a sid ''live-transcription''
                        (JObj ((case map_of req_body ''recordingId'' of
                                  None \<Rightarrow> []
                                | Some r \<Rightarrow> [(''transcriptionId'', r)]) @
                               [(''text'', JStr (r_text result)),
                                (''confidence'',
                                   (case map_of (r_metadata result) ''confidence'' of
                                      None \<Rightarrow> JNum 0.9
                                    | Some c \<Rightarrow> if truthy c then c else JNum 0.9)),
                                (''isLive'', JBool True)]))
                    else []))))"


section \<open>summaryController\<close>

subsection \<open>The Summary model\<close>

text \<open>
  The validators of the summary schema. Three paths of \<open>content\<close> are required
  strings, and a required string must not be empty.
\<close>

definition required_content :: "(string \<times> string) list \<Rightarrow> string \<Rightarrow> bool" where
  "required_content c k = (case map_of c k of None \<Rightarrow> False | Some v \<Rightarrow> v \<noteq> [])"

definition summary_valid :: "summary_doc \<Rightarrow> bool" where
  "summary_valid m =
    (summaryId m \<noteq> [] \<and>
     required_content (content m) ''chiefComplaint'' \<and>
     required_content (content m) ''assessment'' \<and>
     required_content (content m) ''plan'' \<and>
     list_all (enum_member [''symptom'', ''diagnosis'', ''treatment'', ''followup'', ''medication'', ''other'']
                 ''category'') (elements (keyPoints m)) \<and>
     list_all (range_member 0 100 ''confidence'') (elements (keyPoints m)) \<and>
     list_all (enum_member [''mild'', ''moderate'', ''severe''] ''severity'')
       (elements (member ''symptoms'' (extractedData m))) \<and>
     list_all (range_member 0 100 ''confidence'') (elements (member ''diagnoses'' (extractedData m))) \<and>
     range_member 0 100 ''confidence'' (generationMetadata m) \<and>
     status_m m \<in> set [''generating'', ''completed'', ''failed'', ''reviewing''])"

definition Summary_insert :: "summary_doc \<Rightarrow> store \<Rightarrow> db_error + store" where
  "Summary_insert doc st =
    (if \<not> summary_valid doc then Inl (ValidationError ''Summary'')
     else if find (\<lambda>d. oid_m d = oid_m doc \<or> summaryId d = summaryId doc) (db_summaries st) \<noteq> None
     then Inl (MongoServerError ''E11000'')
     else Inr (st\<lparr>db_summaries := db_summaries st @ [doc]\<rparr>))"

text \<open>What a save of \<open>this\<close> makes of the stored document.\<close>

definition summary_delta :: "summary_doc \<Rightarrow> summary_doc \<Rightarrow> summary_doc \<Rightarrow> summary_doc" where
  "summary_delta saved this stored =
    stored
      \<lparr>summaryId := changed (summaryId saved) (summaryId this) (summaryId stored),
       session_m := changed (session_m saved) (session_m this) (session_m stored),
       content := changed (content saved) (content this) (content stored),
       keyPoints := changed (keyPoints saved) (keyPoints this) (keyPoints stored),
       extractedData := changed (extractedData saved) (extractedData this) (extractedData stored),
       generationMetadata := changed (generationMetadata saved) (generationMetadata this) (generationMetadata stored),
       status_m := changed (status_m saved) (status_m this) (status_m stored),
       version := changed (version saved) (version this) (version stored),
       previousVersions := pushed (previousVersions saved) (previousVersions this) (previousVersions stored),
       reviewedBy := changed (reviewedBy saved) (reviewedBy this) (reviewedBy stored),
       reviewedAt := changed (reviewedAt saved) (reviewedAt this) (reviewedAt stored),
       reviewNotes := changed (reviewNotes saved) (reviewNotes this) (reviewNotes stored),
       isApproved := changed (isApproved saved) (isApproved this) (isApproved stored),
       isActive_m := changed (isActive_m saved) (isActive_m this) (isActive_m stored)\<rparr>"

definition Summary_save :: "summary_doc \<Rightarrow> summary_doc \<Rightarrow> store \<Rightarrow> db_error + store" where
  "Summary_save saved this st =
    (if \<not> summary_valid this then Inl (ValidationError ''Summary'')
     else if find (\<lambda>d. oid_m d = oid_m this) (db_summaries st) = None then Inl DocumentNotFoundError
     else Inr (st\<lparr>db_summaries :=
                    map (\<lambda>d. if oid_m d = oid_m this then summary_delta saved this d else d)
                      (db_summaries st)\<rparr>))"

text \<open>
  \<open>new Summary({ session: sessionId, status: 'generating' })\<close> with the defaults of the
  schema; \<open>sid\<close> is the ObjectId that \<open>sessionId\<close> casts to.
\<close>

definition new_Summary :: "env \<Rightarrow> objectId \<Rightarrow> summary_doc" where
  "new_Summary e sid =
    \<lparr>oid_m = newObjectId e,
     summaryId = ''sum_'' @ randomSuffix e,
     session_m = sid,
     content = [],
     keyPoints = JArr [],
     extractedData = JObj [],
     generationMetadata = JObj [(''model'', JStr ''gpt-4''), (''promptVersion'', JStr ''1.0''), (''confidence'', JNum 85)],
     status_m = ''generating'',
     version = 1,
     previousVersions = [],
     reviewedBy = None,
     reviewedAt = None,
     reviewNotes = None,
     isApproved = False,
     isActive_m = True\<rparr>"

text \<open>
  \<open>.populate('transcriptions')\<close> and \<open>.populate('summary')\<close>: the documents the
  references lead to; a reference that leads nowhere is dropped from an array and is
  \<open>null\<close> for a single path.
\<close>

definition populate_transcriptions :: "store \<Rightarrow> session_doc \<Rightarrow> transcription_doc list" where
  "populate_transcriptions st s =
    List.map_filter (\<lambda>r. find (\<lambda>d. oid_t d = r) (db_transcriptions st)) (transcriptions s)"

definition populate_summary :: "store \<Rightarrow> session_doc \<Rightarrow> summary_doc option" where
  "populate_summary st s =
    (case summary s of
       None \<Rightarrow> None
     | Some r \<Rightarrow> find (\<lambda>d. oid_m d = r) (db_summaries st))"

subsection \<open>generateSummary\<close>

text \<open>
  What the handler leaves running: the call of \<open>summaryService.generateSummary\<close> with
  its two callbacks, which close over \<open>summary\<close>, \<open>session\<close>, \<open>sessionId\<close> and
  \<open>regenerate\<close>. \<open>sj_linked\<close> is whether \<open>session.summary\<close> is set on the document
  the callbacks hold, \<open>sj_saved\<close> the summary as it was read or last saved.
\<close>

record summary_job =
  sj_summary :: summary_doc
  sj_saved :: summary_doc
  sj_sessionId :: string
  sj_regenerate :: bool
  sj_linked :: bool

record summary_result =
  sr_content :: "(string \<times> string) list"
  sr_keyPoints :: json
  sr_extractedData :: json
  sr_metadata :: json

text \<open>\<open>const { regenerate = false } = req.body;\<close> and its truthiness.\<close>

definition regenerate_of :: "(string \<times> json) list \<Rightarrow> bool" where
  "regenerate_of req_body =
    (case map_of req_body ''regenerate'' of None \<Rightarrow> False | Some v \<Rightarrow> truthy v)"

definition started :: "summary_doc \<Rightarrow> response" where
  "started m =
    \<lparr>status_code = 202,
     body = [(''message'', PJson (JStr ''Summary generation started'')),
             (''summaryId'', PJson (JStr (summaryId m))),
             (''status'', PJson (JStr ''generating''))]\<rparr>"

definition generateSummary :: "env \<Rightarrow> string \<Rightarrow> (string \<times> json) list \<Rightarrow> store \<Rightarrow> response \<times> store \<times> summary_job option" where
  "generateSummary e sid req_body st =
    (let regenerate = regenerate_of req_body
     in case Session_findById st sid of
          Inl err \<Rightarrow> (internal_error ''Failed to start summary generation'', st, None)
        | Inr None \<Rightarrow> (session_not_found, st, None)
        | Inr (Some stored) \<Rightarrow>
           if populate_transcriptions st stored = []
           then (error_reply 400 ''No transcriptions found'' ''Cannot generate summary without transcriptions'', st, None)
           else
             (case populate_summary st stored of
                Some existing \<Rightarrow>
                  if \<not> regenerate
                  then (\<lparr>status_code = 400,
                         body = [(''error'', PJson (JStr ''Summary already exists'')),
                                 (''message'', PJson (JStr ''Summary already exists for this session. Use regenerate=true to create a new version'')),
                                 (''summaryId'', PJson (JStr (summaryId existing)))]\<rparr>,
                        st, None)
                  else
                    (let summary1 = existing\<lparr>status_m := ''generating''\<rparr>
                     in case Summary_save existing summary1 st of
                          Inl err \<Rightarrow> (internal_error ''Failed to start summary generation'', st, None)
                        | Inr st1 \<Rightarrow>
                           (started summary1, st1,
                            Some \<lparr>sj_summary = summary1, sj_saved = summary1, sj_sessionId = sid,
                                  sj_regenerate = regenerate, sj_linked = True\<rparr>))
              | None \<Rightarrow>
                  (let summary1 = new_Summary e (oid stored)
                   in case Summary_insert summary1 st of
                        Inl err \<Rightarrow> (internal_error ''Failed to start summary generation'', st, None)
                      | Inr st1 \<Rightarrow>
                         (case Session_save stored ((Session_init e stored)\<lparr>summary := Some (oid_m summary1)\<rparr>) st1 of
                            Inl err \<Rightarrow> (internal_error ''Failed to start summary generation'', st1, None)
                          | Inr (session1, st2) \<Rightarrow>
                             (started summary1, st2,
                              Some \<lparr>sj_summary = summary1, sj_saved = summary1, sj_sessionId = sid,
                                    sj_regenerate = regenerate, sj_linked = True\<rparr>)))))"

text \<open>The \<open>.catch\<close> callback.\<close>

definition summary_rejected :: "app \<Rightarrow> summary_job \<Rightarrow> string \<Rightarrow> store \<Rightarrow> store \<times> emission list" where
  "summary_rejected a job msg st =
    (let summary1 = (sj_summary job)\<lparr>status_m := ''failed''\<rparr>
     in case Summary_save (sj_saved job) summary1 st of
          Inl err \<Rightarrow> (st, [])
        | Inr st1 \<Rightarrow>
            (st1, to_session a (JStr (sj_sessionId job)) ''summary-failed''
                    (JObj [(''summaryId'', JStr (summaryId summary1)),
                           (''error'', JStr msg)])))"

text \<open>
  What the schema makes of a value assigned to \<open>content\<close>: it keeps the members it
  declares and trims them.
\<close>

definition content_paths :: "string list" where
  "content_paths =
    [''chiefComplaint'', ''historyOfPresentIllness'', ''pastMedicalHistory'', ''medications'',
     ''allergies'', ''socialHistory'', ''familyHistory'', ''reviewOfSystems'',
     ''physicalExamination'', ''assessment'', ''plan'', ''followUp'']"

definition cast_content :: "(string \<times> string) list \<Rightarrow> (string \<times> string) list" where
  "cast_content c = map (\<lambda>kv. (fst kv, trim (snd kv))) (filter (\<lambda>kv. fst kv \<in> set content_paths) c)"

text \<open>
  \<open>summarySchema.methods.createNewVersion\<close>, before its save. The entry pushed holds
  \<open>this.content\<close>, which is the nested path itself and not a copy of its value: when
  the document is saved, the entry reads as the content assigned after the push. The
  entry is without its \<open>generatedAt\<close>, the \<open>updatedAt\<close> stamp of the summary.
\<close>

definition createNewVersion :: "(string \<times> string) list \<Rightarrow> string \<Rightarrow> summary_doc \<Rightarrow> summary_doc" where
  "createNewVersion newContent generatedBy this =
    this\<lparr>previousVersions := previousVersions this @
           [\<lparr>ve_version = version this, ve_content = cast_content newContent,
             ve_generatedBy = (if generatedBy = [] then ''system'' else generatedBy)\<rparr>],
         version := version this + 1,
         content := cast_content newContent,
         status_m := ''completed'',
         isApproved := False\<rparr>"

text \<open>The \<open>.then\<close> callback; what it throws goes to the \<open>.catch\<close> callback.\<close>

definition summary_fulfilled :: "app \<Rightarrow> summary_job \<Rightarrow> summary_result \<Rightarrow> store \<Rightarrow> store \<times> emission list" where
  "summary_fulfilled a job result st =
    (let summary1 =
           (if sj_regenerate job \<and> sj_linked job
            then createNewVersion (sr_content result) ''ai-generated'' (sj_summary job)
            else (sj_summary job)
                   \<lparr>content := cast_content (sr_content result),
                    keyPoints := sr_keyPoints result,
                    extractedData := sr_extractedData result,
                    generationMetadata := sr_metadata result,
                    status_m := ''completed''\<rparr>)
     in case Summary_save (sj_saved job) summary1 st of
          Inl err \<Rightarrow>
            summary_rejected a (job\<lparr>sj_summary := summary1\<rparr>) (error_message err) st
        | Inr st1 \<Rightarrow>
            (st1, to_session a (JStr (sj_sessionId job)) ''summary-completed''
                    (JObj [(''summaryId'', JStr (summaryId summary1)),
                           (''sessionId'', JStr (sj_sessionId job))])))"

subsection \<open>deleteSummary\<close>

definition deleteSummary :: "schema_types \<Rightarrow> string \<Rightarrow> store \<Rightarrow> response \<times> store" where
  "deleteSummary ty mid st =
    (case find (\<lambda>d. summaryId d = mid) (db_summaries st) of
       None \<Rightarrow> (error_reply 404 ''Summary not found'' ''The specified summary does not exist'', st)
     | Some summary1 \<Rightarrow>
        (case Session_findByIdAndUpdate ty st (session_m summary1)
                [(''$unset'', JObj [(''summary'', JNum 1)])] of
           Inl err \<Rightarrow> (internal_error ''Failed to delete summary'', st)
         | Inr (updated, st1) \<Rightarrow>
            (\<lparr>status_code = 200,
              body = [(''message'', PJson (JStr ''Summary deleted successfully''))]\<rparr>,
             st1\<lparr>db_summaries := delete_first (\<lambda>d. summaryId d = mid) (db_summaries st1)\<rparr>)))"

section \<open>The server\<close>

text \<open>
  The handlers of the two \<open>io.on('connection', ...)\<close> registrations, for a message
  \<open>ev\<close> with data \<open>data\<close> from a connected client. \<open>join-session\<close> is confirmed to
  the client itself; \<open>transcription-update\<close> is passed on to the room
  \<open>data.sessionId\<close>. Reading a member of \<open>null\<close> throws, and nothing is emitted.
\<close>

definition socket_on :: "string \<Rightarrow> json \<Rightarrow> emission list" where
  "socket_on ev data =
    (if ev = ''join-session''
     then [\<lparr>target = ToSender, event = ''joined-session'', payload = JObj [(''sessionId'', data)]\<rparr>]
     else if ev = ''transcription-update''
     then (case data of
             JNull \<Rightarrow> []
           | JObj kvs \<Rightarrow> [\<lparr>target = ToRoom (map_of kvs ''sessionId''), event = ''transcription-update'', payload = data\<rparr>]
           | _ \<Rightarrow> [\<lparr>target = ToRoom None, event = ''transcription-update'', payload = data\<rparr>])
     else [])"

text \<open>
  Everything in the server that emits: the callbacks of the two controllers, the
  streaming handler, and the socket handlers. No other handler reads \<open>io\<close>.
\<close>

datatype server_step =
    UploadFulfilled upload_job transcribe_result
  | UploadRejected upload_job string
  | SummaryFulfilled summary_job summary_result
  | SummaryRejected summary_job string
  | StreamChunk "file_part list" "(string \<times> json) list" "string + transcribe_result"
  | SocketMessage string json

definition emissions :: "app \<Rightarrow> store \<Rightarrow> server_step \<Rightarrow> emission list" where
  "emissions a st step =
    (case step of
       UploadFulfilled job result \<Rightarrow> snd (upload_fulfilled a job result st)
     | UploadRejected job msg \<Rightarrow> snd (upload_rejected a job msg st)
     | SummaryFulfilled job result \<Rightarrow> snd (summary_fulfilled a job result st)
     | SummaryRejected job msg \<Rightarrow> snd (summary_rejected a job msg st)
     | StreamChunk parts req_body outcome \<Rightarrow> snd (startStreamTranscription a parts req_body outcome)
     | SocketMessage ev data \<Rightarrow> socket_on ev data)"

text \<open>The events sent to a room by a list of emissions.\<close>

definition room_events :: "emission list \<Rightarrow> string list" where
  "room_events es = map event (filter (\<lambda>m. target m \<noteq> ToSender) es)"

text \<open>The events the server sends to rooms.\<close>

definition room_event_names :: "string list" where
  "room_event_names =
    [''transcription-completed'', ''transcription-failed'', ''live-transcription'',
     ''summary-completed'', ''summary-failed'', ''transcription-update'']"

section \<open>Example data\<close>

text \<open>
  A small database used to run the handlers on concrete requests: one session with one
  completed transcription and a finished summary.
\<close>

definition session_A :: session_doc where
  "session_A =
    \<lparr>oid = ''64b7f0c2a1d3e4f5a6b7c8d9'',
     sessionId = ''sess_1'',
     patient = None,
     doctorName = ''Dr Rao'',
     doctorId = None,
     sessionType = ''consultation'',
     department = None,
     startTime = Some 1000,
     endTime = None,
     duration = 0,
     status = ''active'',
     transcriptions = [''64b7f0c2a1d3e4f5a6b7c8da''],
     summary = Some ''64b7f0c2a1d3e4f5a6b7c8db'',
     symptoms = JArr [],
     diagnosis = JArr [],
     prescriptions = JArr [],
     followUpRequired = False,
     followUpDate = None,
     priority = ''normal'',
     notes_s = None,
     metadata = JObj [(''language'', JStr ''en'')],
     isActive = True\<rparr>"

definition transcription_A :: transcription_doc where
  "transcription_A =
    \<lparr>oid_t = ''64b7f0c2a1d3e4f5a6b7c8da'',
     transcriptionId = ''trans_1'',
     session_t = ''64b7f0c2a1d3e4f5a6b7c8d9'',
     audioFile = \<lparr>originalName = ''visit.webm'', filename = ''audio-1.webm'',
                  path_f = ''uploads/audio-1.webm'', size_f = 2048, mimeType = ''audio/webm''\<rparr>,
     transcriptionText = ''fever since monday'',
     confidence = None,
     language_t = ''en-US'',
     speaker = ''unknown'',
     processingMetadata = JObj [],
     status_t = ''completed'',
     isEdited = False,
     editHistory = []\<rparr>"

definition summary_A :: summary_doc where
  "summary_A =
    \<lparr>oid_m = ''64b7f0c2a1d3e4f5a6b7c8db'',
     summaryId = ''sum_1'',
     session_m = ''64b7f0c2a1d3e4f5a6b7c8d9'',
     content = [(''chiefComplaint'', ''fever''), (''assessment'', ''viral''), (''plan'', ''rest'')],
     keyPoints = JArr [],
     extractedData = JObj [],
     generationMetadata = JObj [],
     status_m = ''completed'',
     version = 1,
     previousVersions = [],
     reviewedBy = None,
     reviewedAt = None,
     reviewNotes = None,
     isApproved = False,
     isActive_m = True\<rparr>"

definition store_A :: store where
  "store_A =
    \<lparr>db_sessions = [session_A],
     db_transcriptions = [transcription_A],
     db_summaries = [summary_A]\<rparr>"

text \<open>The same session once every transcription of it has been deleted.\<close>

definition store_B :: store where
  "store_B =
    \<lparr>db_sessions = [session_A\<lparr>transcriptions := []\<rparr>],
     db_transcriptions = [],
     db_summaries = [summary_A]\<rparr>"

text \<open>The same session with its transcription and no summary yet.\<close>

definition store_C :: store where
  "store_C =
    \<lparr>db_sessions = [session_A\<lparr>summary := None\<rparr>],
     db_transcriptions = [transcription_A],
     db_summaries = []\<rparr>"

text \<open>The session after it was ended.\<close>

definition store_D :: store where
  "store_D =
    \<lparr>db_sessions = [session_A\<lparr>status := ''completed'', endTime := Some 61000, duration := 1\<rparr>],
     db_transcriptions = [transcription_A],
     db_summaries = [summary_A]\<rparr>"

definition env_A :: env where
  "env_A = \<lparr>now = 91000, newObjectId = ''64b7f0c2a1d3e4f5a6b7c8dc'', randomSuffix = ''91000_k3''\<rparr>"

text \<open>
  A library that casts nothing but the values of a path's own type and refuses every
  update document outside the model.
\<close>

definition plain_types :: schema_types where
  "plain_types =
    \<lparr>castString = (\<lambda>v. None),
     castNumber = (\<lambda>v. None),
     castBoolean = (\<lambda>v. None),
     castDate = (\<lambda>v. case v of JNum r \<Rightarrow> Some (floor r) | _ \<Rightarrow> None),
     castObjectId = (\<lambda>v. None),
     castStructured = (\<lambda>p v. Some v),
     otherUpdate = (\<lambda>updates. Inl (MongoServerError ''update''))\<rparr>"

definition audio_part :: file_part where
  "audio_part =
    \<lparr>fieldname = ''audio'', originalname = ''visit.webm'', mimetype = ''audio/webm'',
     size_p = 2048, filename_p = ''audio-2.webm'', path_p = ''uploads/audio-2.webm''\<rparr>"

definition pdf_part :: file_part where
  "pdf_part =
    \<lparr>fieldname = ''audio'', originalname = ''notes.pdf'', mimetype = ''application/pdf'',
     size_p = 2048, filename_p = ''audio-3.pdf'', path_p = ''uploads/audio-3.pdf''\<rparr>"






section \<open>Properties of the numbers\<close>

lemma ilog2_bounds: "0 < n \<Longrightarrow> 2 ^ ilog2 n \<le> n \<and> n < 2 ^ (ilog2 n + 1)"
proof (induction n rule: ilog2.induct)
  case (1 n)
  show ?case
  proof (cases "n < 2")
    case True
    with 1(2) have "n = 1" by simp
    then show ?thesis by (simp add: ilog2.simps)
  next
    case False
    then have d: "0 < n div 2" by simp
    from 1(1) [OF False d] have "2 ^ ilog2 (n div 2) \<le> n div 2" "n div 2 < 2 ^ (ilog2 (n div 2) + 1)" by simp_all
    moreover have "ilog2 n = Suc (ilog2 (n div 2))" using False by (simp add: ilog2.simps)
    ultimately have "2 * 2 ^ ilog2 (n div 2) \<le> n" "n < 2 * (2 * 2 ^ ilog2 (n div 2))" "ilog2 n = Suc (ilog2 (n div 2))"
      by simp_all
    then show ?thesis by simp
  qed
qed

lemma exponent_bounds:
  assumes "x \<noteq> 0"
  shows "2 powi exponent x \<le> \<bar>x\<bar> \<and> \<bar>x\<bar> < 2 powi (exponent x + 1)"
proof (cases "1 \<le> \<bar>x\<bar>")
  case True
  define n where "n = nat \<lfloor>\<bar>x\<bar>\<rfloor>"
  have f: "1 \<le> \<lfloor>\<bar>x\<bar>\<rfloor>" using True by linarith
  then have n: "0 < n" by (simp add: n_def)
  have r: "real n = of_int \<lfloor>\<bar>x\<bar>\<rfloor>" using f by (simp add: n_def)
  have lo: "real n \<le> \<bar>x\<bar>" and hi: "\<bar>x\<bar> < real n + 1" unfolding r by linarith+
  from ilog2_bounds [OF n] have "2 ^ ilog2 n \<le> n" "n + 1 \<le> 2 ^ (ilog2 n + 1)" by simp_all
  then have "real (2 ^ ilog2 n) \<le> real n" "real (n + 1) \<le> real (2 ^ (ilog2 n + 1))"
    by (simp_all only: of_nat_le_iff)
  then have b: "(2::real) ^ ilog2 n \<le> real n" "real n + 1 \<le> 2 ^ (ilog2 n + 1)" by simp_all
  have e: "exponent x = int (ilog2 n)" using True by (simp add: exponent_def n_def)
  have p: "(2::real) powi exponent x = 2 ^ ilog2 n" "(2::real) powi (exponent x + 1) = 2 ^ (ilog2 n + 1)"
    unfolding e by (simp_all add: power_int_of_nat power_int_add)
  show ?thesis unfolding p using b lo hi by linarith
next
  case False
  define y where "y = 1 / \<bar>x\<bar>"
  have x: "0 < \<bar>x\<bar>" "\<bar>x\<bar> < 1" using assms False by simp_all
  then have y: "1 < y" by (simp add: y_def)
  define m where "m = nat \<lceil>y\<rceil>"
  have c: "2 \<le> \<lceil>y\<rceil>" using y by linarith
  then have m: "0 < m - 1" by (simp add: m_def)
  have r: "real m = of_int \<lceil>y\<rceil>" using c by (simp add: m_def)
  have lo: "real m - 1 < y" and hi: "y \<le> real m" unfolding r by linarith+
  from ilog2_bounds [OF m] have "2 ^ ilog2 (m - 1) \<le> m - 1" "m - 1 < 2 ^ (ilog2 (m - 1) + 1)"
    by simp_all
  then have "2 ^ ilog2 (m - 1) \<le> m - 1" "m \<le> 2 ^ (ilog2 (m - 1) + 1)"
    using m by linarith+
  then have "real (2 ^ ilog2 (m - 1)) \<le> real (m - 1)" "real m \<le> real (2 ^ (ilog2 (m - 1) + 1))"
    by (simp_all only: of_nat_le_iff)
  then have b: "(2::real) ^ ilog2 (m - 1) \<le> real m - 1" "real m \<le> 2 ^ (ilog2 (m - 1) + 1)"
    using m by (simp_all add: of_nat_diff)
  have e: "exponent x = - int (ilog2 (m - 1)) - 1" using False by (simp add: exponent_def m_def y_def)
  have p: "(2::real) powi exponent x = 1 / 2 ^ (ilog2 (m - 1) + 1)"
    "(2::real) powi (exponent x + 1) = 1 / 2 ^ ilog2 (m - 1)"
    unfolding e by (simp_all add: power_int_minus_divide power_int_of_nat power_int_diff power_int_add field_simps)
  have ax: "\<bar>x\<bar> = 1 / y" using x by (simp add: y_def)
  have 1: "1 / 2 ^ (ilog2 (m - 1) + 1) \<le> 1 / y"
    using b(2) hi y by (intro divide_left_mono) (simp_all add: mult_pos_pos)
  have 2: "1 / y < 1 / 2 ^ ilog2 (m - 1)"
    using b(1) lo y by (intro divide_strict_left_mono) (simp_all add: mult_pos_pos)
  show ?thesis unfolding p ax using 1 2 by simp
qed







lemma exponent_ge:
  assumes "2 powi n \<le> \<bar>x\<bar>"
  shows "n \<le> exponent x"
proof -
  have "0 < (2::real) powi n" by simp
  with assms have "0 < \<bar>x\<bar>" by linarith
  then have x: "x \<noteq> 0" by simp
  from exponent_bounds [OF x] assms have "(2::real) powi n < 2 powi (exponent x + 1)" by linarith
  then have "n < exponent x + 1" by (metis power_int_increasing not_less one_le_numeral)
  then show ?thesis by simp
qed




section \<open>Properties of the language table\<close>

lemma getLanguageCode_supported:
  "getLanguageCode ''en'' = JSString ''en-US''"
  "getLanguageCode ''hi'' = JSString ''hi-IN''"
  "getLanguageCode ''bn'' = JSString ''bn-IN''"
  "getLanguageCode ''te'' = JSString ''te-IN''"
  "getLanguageCode ''mr'' = JSString ''mr-IN''"
  "getLanguageCode ''ta'' = JSString ''ta-IN''"
  "getLanguageCode ''gu'' = JSString ''gu-IN''"
  "getLanguageCode ''kn'' = JSString ''kn-IN''"
  by (simp_all add: getLanguageCode_def get_property_def languageMap_def)

lemma getLanguageCode_fallback:
  assumes "map_of languageMap lang = None"
    and "map_of object_prototype lang = None"
  shows "getLanguageCode lang = JSString ''en-US''"
  using assms by (simp add: getLanguageCode_def get_property_def)

text \<open>
  Claim C7. \<open>getLanguageCode\<close> is meant to send each of the eight supported codes to
  its locale and every other string to \<open>en-US\<close>. The string \<open>constructor\<close> is not
  one of the eight codes, yet the read \<open>languageMap['constructor']\<close> finds the
  inherited member of \<open>Object.prototype\<close>, which is truthy, so the fallback is not
  taken and the function returns the built-in \<open>Object\<close> function instead of
  \<open>en-US\<close>.
\<close>

theorem getLanguageCode_constructor:
  "getLanguageCode ''constructor'' = JSFunction ''Object'' \<and>
   getLanguageCode ''constructor'' \<noteq> JSString ''en-US'' \<and>
   map_of languageMap ''constructor'' = None"
  by (simp add: getLanguageCode_def get_property_def languageMap_def object_prototype_def)

section \<open>Properties of the collections\<close>


lemma find_map_preserve:
  "(\<And>d. P (G d) = P d) \<Longrightarrow> find P (map G ds) = map_option G (find P ds)"
  by (induction ds) auto


lemma find_oid_t: "find (\<lambda>d. oid_t d = i) ds = Some t \<Longrightarrow> oid_t t = i"
  by (induction ds) (auto split: if_splits)

lemma find_oid_m: "find (\<lambda>d. oid_m d = i) ds = Some m \<Longrightarrow> oid_m m = i"
  by (induction ds) (auto split: if_splits)

lemma find_append_new:
  "find P ds = None \<Longrightarrow> P doc \<Longrightarrow> find P (ds @ [doc]) = Some doc"
  by (induction ds) (auto split: if_splits)



lemma Session_findById_found:
  "ObjectId_of sid = Some i \<Longrightarrow> find (\<lambda>d. oid d = i) (db_sessions st) = Some s \<Longrightarrow>
   Session_findById st sid = Inr (Some s)"
  by (simp add: Session_findById_def)


subsection \<open>What a save writes\<close>

lemma pushed_same: "pushed saved this saved = this"
proof (cases "take (length saved) this = saved")
  case True
  then have "saved @ drop (length saved) this = this"
    by (metis append_take_drop_id)
  with True show ?thesis by (simp add: pushed_def)
next
  case False
  then show ?thesis by (auto simp: pushed_def)
qed

lemma changed_same: "changed saved this saved = this"
  by (simp add: changed_def)


lemma transcription_delta_same:
  "oid_t this = oid_t saved \<Longrightarrow> transcription_delta saved this saved = this"
  by (simp add: transcription_delta_def changed_same pushed_same)

lemma summary_delta_same:
  "oid_m this = oid_m saved \<Longrightarrow> summary_delta saved this saved = this"
  by (simp add: summary_delta_def changed_same pushed_same)

lemma delta_oid:
  "oid (session_delta saved this stored) = oid stored"
  "oid_t (transcription_delta saved1 this1 stored1) = oid_t stored1"
  "oid_m (summary_delta saved2 this2 stored2) = oid_m stored2"
  by (simp_all add: session_delta_def transcription_delta_def summary_delta_def)


lemma find_saved_transcription:
  assumes "find (\<lambda>d. oid_t d = i) ds = Some saved" and "oid_t doc = i"
  shows "find (\<lambda>d. oid_t d = i) (map (\<lambda>d. if oid_t d = i then transcription_delta saved doc d else d) ds) = Some doc"
proof -
  from find_oid_t [OF assms(1)] have o: "oid_t saved = i" .
  have "find (\<lambda>d. oid_t d = i) (map (\<lambda>d. if oid_t d = i then transcription_delta saved doc d else d) ds) =
      map_option (\<lambda>d. if oid_t d = i then transcription_delta saved doc d else d) (find (\<lambda>d. oid_t d = i) ds)"
    by (rule find_map_preserve) (simp add: delta_oid)
  then show ?thesis using assms o by (simp add: transcription_delta_same)
qed

lemma find_saved_summary:
  assumes "find (\<lambda>d. oid_m d = i) ds = Some saved" and "oid_m doc = i"
  shows "find (\<lambda>d. oid_m d = i) (map (\<lambda>d. if oid_m d = i then summary_delta saved doc d else d) ds) = Some doc"
proof -
  from find_oid_m [OF assms(1)] have o: "oid_m saved = i" .
  have "find (\<lambda>d. oid_m d = i) (map (\<lambda>d. if oid_m d = i then summary_delta saved doc d else d) ds) =
      map_option (\<lambda>d. if oid_m d = i then summary_delta saved doc d else d) (find (\<lambda>d. oid_m d = i) ds)"
    by (rule find_map_preserve) (simp add: delta_oid)
  then show ?thesis using assms o by (simp add: summary_delta_same)
qed

subsection \<open>The example data\<close>

lemma oid_A: "ObjectId_of ''64b7f0c2a1d3e4f5a6b7c8d9'' = Some ''64b7f0c2a1d3e4f5a6b7c8d9''"
  by (simp add: ObjectId_of_def isObjectId_def isHexDigit_def toLowerCase_def)

lemma findById_A:
  "Session_findById store_A ''64b7f0c2a1d3e4f5a6b7c8d9'' = Inr (Some session_A)"
  by (simp add: Session_findById_def oid_A store_A_def session_A_def)

lemma findById_B:
  "Session_findById store_B ''64b7f0c2a1d3e4f5a6b7c8d9'' = Inr (Some (session_A\<lparr>transcriptions := []\<rparr>))"
  by (simp add: Session_findById_def oid_A store_B_def session_A_def)

lemma findById_C:
  "Session_findById store_C ''64b7f0c2a1d3e4f5a6b7c8d9'' = Inr (Some (session_A\<lparr>summary := None\<rparr>))"
  by (simp add: Session_findById_def oid_A store_C_def session_A_def)

lemma findById_D:
  "Session_findById store_D ''64b7f0c2a1d3e4f5a6b7c8d9'' =
     Inr (Some (session_A\<lparr>status := ''completed'', endTime := Some 61000, duration := 1\<rparr>))"
  by (simp add: Session_findById_def oid_A store_D_def session_A_def)

lemma session_A_fields:
  "status session_A = ''active''"
  "startTime session_A = Some 1000"
  "oid session_A = ''64b7f0c2a1d3e4f5a6b7c8d9''"
  "summary session_A = Some ''64b7f0c2a1d3e4f5a6b7c8db''"
  by (simp_all add: session_A_def)



lemma transcription_A_fields:
  "transcriptionText transcription_A = ''fever since monday''"
  "oid_t transcription_A = ''64b7f0c2a1d3e4f5a6b7c8da''"
  "session_t transcription_A = ''64b7f0c2a1d3e4f5a6b7c8d9''"
  "transcriptionId transcription_A = ''trans_1''"
  by (simp_all add: transcription_A_def)

lemma findOne_A: "Transcription_findOne store_A ''trans_1'' = Some transcription_A"
  by (simp add: Transcription_findOne_def store_A_def transcription_A_def)

lemma populate_A:
  "populate_summary store_A session_A = Some summary_A"
  "populate_transcriptions store_A session_A = [transcription_A]"
  by (simp_all add: populate_summary_def populate_transcriptions_def store_A_def session_A_def
      summary_A_def transcription_A_def List.map_filter_simps)

lemma populate_B:
  "populate_summary store_B (session_A\<lparr>transcriptions := []\<rparr>) = Some summary_A"
  "populate_transcriptions store_B (session_A\<lparr>transcriptions := []\<rparr>) = []"
  by (simp_all add: populate_summary_def populate_transcriptions_def store_B_def session_A_def
      summary_A_def List.map_filter_simps)

lemma populate_C:
  "populate_summary store_C (session_A\<lparr>summary := None\<rparr>) = None"
  "populate_transcriptions store_C (session_A\<lparr>summary := None\<rparr>) = [transcription_A]"
  by (simp_all add: populate_summary_def populate_transcriptions_def store_C_def session_A_def
      transcription_A_def List.map_filter_simps)


section \<open>Properties of the Session model and of endSession\<close>





text \<open>
  Claim C5. For every session whose \<open>status\<close> is \<open>completed\<close>, \<open>endSession\<close> answers
  400 and leaves the database as it was: the session is not modified.
\<close>

theorem endSession_completed:
  assumes "Session_findById st sid = Inr (Some session)"
    and "status session = ''completed''"
  shows "endSession ty e sid req_body st =
           (error_reply 400 ''Session already completed'' ''This session has already been ended'', st)"
proof -
  have "status (Session_init e session) = ''completed''"
    using assms(2) by (simp add: Session_init_def split: option.splits)
  then show ?thesis using assms(1) by (simp add: endSession_def)
qed

theorem endSession_completed_witness:
  "status_code (fst (endSession plain_types env_A ''64b7f0c2a1d3e4f5a6b7c8d9'' [] store_D)) = 400 \<and>
   snd (endSession plain_types env_A ''64b7f0c2a1d3e4f5a6b7c8d9'' [] store_D) = store_D"
  using endSession_completed [OF findById_D, of plain_types env_A "[]"]
  by (simp add: error_reply_def)










section \<open>Properties of updateSession\<close>

text \<open>
  Claim C9. The claim is that no request body makes \<open>updateSession\<close> change the
  \<open>sessionId\<close>, \<open>startTime\<close>, \<open>transcriptions\<close> or \<open>summary\<close> of a session. The
  handler deletes the four members of those names from the body and hands the rest to
  \<open>findByIdAndUpdate\<close>. The body \<open>{ "$unset": { "summary": 1 } }\<close> has none of the
  four members, so nothing is deleted, and the update removes the summary reference of the
  session: the answer is 200 and the stored session has no summary.
\<close>

theorem updateSession_unset_summary:
  "summary session_A = Some ''64b7f0c2a1d3e4f5a6b7c8db'' \<and>
   Session_findById store_A ''64b7f0c2a1d3e4f5a6b7c8d9'' = Inr (Some session_A) \<and>
   updateSession ty ''64b7f0c2a1d3e4f5a6b7c8d9'' [(''$unset'', JObj [(''summary'', JNum 1)])] store_A =
     (\<lparr>status_code = 200,
       body = [(''message'', PJson (JStr ''Session updated successfully'')),
               (''session'', PSession (session_A\<lparr>summary := None\<rparr>))]\<rparr>,
      store_A\<lparr>db_sessions := [session_A\<lparr>summary := None\<rparr>]\<rparr>)"
proof -
  have u: "cast_unset ''summary'' = Some (Inr (\<lambda>s. s\<lparr>summary := None\<rparr>))"
    by (simp add: cast_unset_def)
  have d: "delete_key ''summary'' (delete_key ''transcriptions'' (delete_key ''startTime''
        (delete_key ''sessionId'' [(''$unset'', JObj [(''summary'', JNum 1)])]))) =
        [(''$unset'', JObj [(''summary'', JNum 1)])]"
    by (simp add: delete_key_def)
  have c: "castUpdate [(''$unset'', JObj [(''summary'', JNum 1)])] = Some [UnsetPath ''summary'']"
    by (simp add: castUpdate_def operand_def is_operator_def)
  have m: "modelled_update ty [(''$unset'', JObj [(''summary'', JNum 1)])] =
      Some (Inr (\<lambda>s. s\<lparr>summary := None\<rparr>))"
    by (simp add: modelled_update_def c u op_path_def session_paths_def)
  have f: "find (\<lambda>d. oid d = ''64b7f0c2a1d3e4f5a6b7c8d9'') (db_sessions store_A) = Some session_A"
    by (simp add: store_A_def session_A_def)
  have r: "map (\<lambda>x. if oid x = ''64b7f0c2a1d3e4f5a6b7c8d9'' then x\<lparr>summary := None\<rparr> else x) (db_sessions store_A) =
      [session_A\<lparr>summary := None\<rparr>]"
    by (simp add: store_A_def session_A_def)
  have "Session_findByIdAndUpdate ty store_A ''64b7f0c2a1d3e4f5a6b7c8d9'' [(''$unset'', JObj [(''summary'', JNum 1)])] =
      Inr (Some (session_A\<lparr>summary := None\<rparr>), store_A\<lparr>db_sessions := [session_A\<lparr>summary := None\<rparr>]\<rparr>)"
    by (simp add: Session_findByIdAndUpdate_def oid_A m f r)
  then show ?thesis
    by (simp add: updateSession_def d Let_def session_A_fields findById_A)
qed

text \<open>
  For comparison, a body that names the summary as a plain member: the member is deleted
  and the session keeps its summary.
\<close>

lemma updateSession_plain_summary:
  "updateSession ty ''64b7f0c2a1d3e4f5a6b7c8d9'' [(''summary'', JNull)] store_A =
     (\<lparr>status_code = 200,
       body = [(''message'', PJson (JStr ''Session updated successfully'')),
               (''session'', PSession session_A)]\<rparr>,
      store_A)"
proof -
  have d: "delete_key ''summary'' (delete_key ''transcriptions'' (delete_key ''startTime''
        (delete_key ''sessionId'' [(''summary'', JNull)]))) = []"
    by (simp add: delete_key_def)
  have f: "find (\<lambda>d. oid d = ''64b7f0c2a1d3e4f5a6b7c8d9'') (db_sessions store_A) = Some session_A"
    by (simp add: store_A_def session_A_def)
  have m: "modelled_update ty [] = Some (Inr (\<lambda>s. s))"
    by (simp add: modelled_update_def castUpdate_def operand_def)
  have "Session_findByIdAndUpdate ty store_A ''64b7f0c2a1d3e4f5a6b7c8d9'' [] = Inr (Some session_A, store_A)"
    by (simp add: Session_findByIdAndUpdate_def oid_A m f)
  then show ?thesis
    by (simp add: updateSession_def d Let_def)
qed

section \<open>Properties of updateTranscription and deleteTranscription\<close>

lemma Transcription_save_loaded:
  assumes "transcription_valid this"
    and "find (\<lambda>d. oid_t d = oid_t this) (db_transcriptions st) \<noteq> None"
  shows "Transcription_save saved this st =
    Inr (st\<lparr>db_transcriptions :=
              map (\<lambda>d. if oid_t d = oid_t this then transcription_delta saved this d else d)
                (db_transcriptions st)\<rparr>)"
  using assms by (simp add: Transcription_save_def)

lemma Transcription_save_invalid:
  "\<not> transcription_valid this \<Longrightarrow> Transcription_save saved this st = Inl (ValidationError ''Transcription'')"
  by (simp add: Transcription_save_def)

lemma findOne_member:
  "Transcription_findOne st tid = Some t \<Longrightarrow>
   find (\<lambda>d. oid_t d = oid_t t) (db_transcriptions st) \<noteq> None"
proof -
  assume "Transcription_findOne st tid = Some t"
  then have "t \<in> set (db_transcriptions st)"
    by (auto simp: Transcription_findOne_def find_Some_iff)
  then show ?thesis by (auto simp: find_None_iff)
qed

text \<open>A save that leaves \<open>transcriptionId\<close> as it was read leaves the document where \<open>findOne\<close> finds it.\<close>

lemma findOne_saved:
  assumes f: "Transcription_findOne st tid = Some t"
    and o: "oid_t t2 = oid_t t" "transcriptionId t2 = transcriptionId t"
  shows "Transcription_findOne
           (st\<lparr>db_transcriptions :=
                 map (\<lambda>d. if oid_t d = oid_t t2 then transcription_delta t t2 d else d)
                   (db_transcriptions st)\<rparr>) tid = Some t2"
proof -
  let ?G = "\<lambda>d. if oid_t d = oid_t t2 then transcription_delta t t2 d else d"
  have "find (\<lambda>d. transcriptionId d = tid) (map ?G (db_transcriptions st)) =
      map_option ?G (find (\<lambda>d. transcriptionId d = tid) (db_transcriptions st))"
    by (rule find_map_preserve) (simp add: transcription_delta_def changed_def o)
  then show ?thesis using f o by (simp add: Transcription_findOne_def transcription_delta_same)
qed

lemma Transcription_init_fields:
  "oid_t (Transcription_init t) = oid_t t"
  "transcriptionId (Transcription_init t) = transcriptionId t"
  "transcriptionText (Transcription_init t) = transcriptionText t"
  "editHistory (Transcription_init t) = editHistory t"
  "isEdited (Transcription_init t) = isEdited t"
  "speaker (Transcription_init t) = speaker t"
  "status_t (Transcription_init t) = status_t t"
  "confidence (Transcription_init t) = Some (case confidence t of None \<Rightarrow> 0 | Some c \<Rightarrow> c)"
  by (simp_all add: Transcription_init_def split: option.splits)

text \<open>For a text given as a string, the condition is that it is not empty and differs from the stored text.\<close>

lemma text_edited_string:
  "text_edited (Some (JStr s)) this = (s \<noteq> [] \<and> s \<noteq> transcriptionText this)"
  "text_edited None this = False"
  by (simp_all add: text_edited_def)

lemma text_edited_init: "text_edited txt (Transcription_init t) = text_edited txt t"
  by (cases "txt") (simp_all add: text_edited_def Transcription_init_fields)

lemma edit_text_eval:
  "edit_text ty n txt who this =
    (if text_edited txt this then
       (case Option.bind txt (String_cast ty) of
          None \<Rightarrow> Inl (ValidationError ''transcriptionText'')
        | Some new \<Rightarrow>
           (case (if truthy_opt who then Option.bind who (String_cast ty) else Some ''unknown'') of
              None \<Rightarrow> Inl (ValidationError ''editHistory'')
            | Some editor \<Rightarrow>
               Inr (this\<lparr>editHistory := editHistory this @
                            [\<lparr>originalText = transcriptionText this, editedText = new,
                              editedAt = n, editedBy = editor\<rparr>],
                         transcriptionText := new,
                         isEdited := True\<rparr>)))
     else Inr this)"
  by (cases "txt"; cases who)
     (auto simp: edit_text_def text_edited_def truthy_opt_def split: option.splits)

lemma set_speaker_eval:
  "set_speaker ty sp this =
    (if truthy_opt sp then
       (case Option.bind sp (String_cast ty) of
          None \<Rightarrow> Inl (ValidationError ''speaker'')
        | Some str \<Rightarrow> Inr (this\<lparr>speaker := str\<rparr>))
     else Inr this)"
  by (cases sp) (simp_all add: set_speaker_def truthy_opt_def)

text \<open>The second half of the handler, from \<open>if (speaker)\<close> on, for a document \<open>t1\<close>.\<close>

lemma updateTranscription_tail:
  assumes f: "Transcription_findOne st tid = Some t"
    and o: "oid_t t1 = oid_t t" "speaker t1 = speaker t" "transcriptionId t1 = transcriptionId t"
      "confidence t1 = Some (case confidence t of None \<Rightarrow> 0 | Some c \<Rightarrow> c)" "status_t t1 = status_t t"
    and r: "(case set_speaker ty sp t1 of
               Inl err \<Rightarrow> (internal_error ''Failed to update transcription'', st)
             | Inr t2 \<Rightarrow>
                (case Transcription_save t t2 st of
                   Inl err \<Rightarrow> (internal_error ''Failed to update transcription'', st)
                 | Inr st1 \<Rightarrow>
                    (\<lparr>status_code = 200,
                      body = [(''message'', PJson (JStr ''Transcription updated successfully'')),
                              (''transcription'', PTranscription t2)]\<rparr>,
                     st1))) = (resp, st')"
  shows "(status_code resp = 200 \<longleftrightarrow>
            (if truthy_opt sp
             then (\<exists>s. Option.bind sp (String_cast ty) = Some s \<and> s \<in> set [''doctor'', ''patient'', ''unknown''])
             else speaker t \<in> set [''doctor'', ''patient'', ''unknown'']) \<and>
            transcriptionId t \<noteq> [] \<and>
            (case confidence t of None \<Rightarrow> True | Some c \<Rightarrow> 0 \<le> c \<and> c \<le> 100) \<and>
            status_t t \<in> set [''processing'', ''completed'', ''failed''])
       \<and> (status_code resp \<noteq> 200 \<longrightarrow> status_code resp = 500 \<and> st' = st)
       \<and> (status_code resp = 200 \<longrightarrow>
            (\<exists>t'. Transcription_findOne st' tid = Some t' \<and>
                  editHistory t' = editHistory t1 \<and> transcriptionText t' = transcriptionText t1 \<and>
                  isEdited t' = isEdited t1))"
proof (cases "set_speaker ty sp t1")
  case (Inl err)
  then have n: "truthy_opt sp" "Option.bind sp (String_cast ty) = None"
    by (auto simp: set_speaker_eval split: if_splits option.splits)
  from r Inl have "resp = internal_error ''Failed to update transcription''" "st' = st" by simp_all
  then show ?thesis using n by (simp add: internal_error_def error_reply_def)
next
  case (Inr t2)
  then have t2: "oid_t t2 = oid_t t" "transcriptionId t2 = transcriptionId t"
    "confidence t2 = Some (case confidence t of None \<Rightarrow> 0 | Some c \<Rightarrow> c)" "status_t t2 = status_t t"
    "editHistory t2 = editHistory t1" "transcriptionText t2 = transcriptionText t1" "isEdited t2 = isEdited t1"
    using o by (auto simp: set_speaker_eval split: if_splits option.splits)
  have sp: "speaker t2 \<in> set [''doctor'', ''patient'', ''unknown''] \<longleftrightarrow>
      (if truthy_opt sp
       then (\<exists>s. Option.bind sp (String_cast ty) = Some s \<and> s \<in> set [''doctor'', ''patient'', ''unknown''])
       else speaker t \<in> set [''doctor'', ''patient'', ''unknown''])"
    using Inr o(2) by (auto simp: set_speaker_eval split: if_splits option.splits)
  have c: "(case confidence t2 of None \<Rightarrow> True | Some c \<Rightarrow> 0 \<le> c \<and> c \<le> 100) \<longleftrightarrow>
      (case confidence t of None \<Rightarrow> True | Some c \<Rightarrow> 0 \<le> c \<and> c \<le> 100)"
    by (simp add: t2(3) split: option.splits)
  have v: "transcription_valid t2 \<longleftrightarrow>
      (if truthy_opt sp
       then (\<exists>s. Option.bind sp (String_cast ty) = Some s \<and> s \<in> set [''doctor'', ''patient'', ''unknown''])
       else speaker t \<in> set [''doctor'', ''patient'', ''unknown'']) \<and>
      transcriptionId t \<noteq> [] \<and>
      (case confidence t of None \<Rightarrow> True | Some c \<Rightarrow> 0 \<le> c \<and> c \<le> 100) \<and>
      status_t t \<in> set [''processing'', ''completed'', ''failed'']"
    unfolding transcription_valid_def sp c t2(2) t2(4) by blast
  show ?thesis
  proof (cases "transcription_valid t2")
    case False
    from r Inr Transcription_save_invalid [OF False]
    have "resp = internal_error ''Failed to update transcription''" "st' = st" by simp_all
    then show ?thesis using False v by (simp add: internal_error_def error_reply_def)
  next
    case True
    have f2: "find (\<lambda>d. oid_t d = oid_t t2) (db_transcriptions st) \<noteq> None"
      using findOne_member [OF f] t2(1) by simp
    from r Inr Transcription_save_loaded [OF True f2, of t]
    have s: "status_code resp = 200"
      "st' = st\<lparr>db_transcriptions :=
                  map (\<lambda>d. if oid_t d = oid_t t2 then transcription_delta t t2 d else d)
                    (db_transcriptions st)\<rparr>"
      by auto
    from findOne_saved [OF f t2(1) t2(2)] s(2)
    have "Transcription_findOne st' tid = Some t2" by simp
    then show ?thesis using s(1) True v t2(5-7) by blast
  qed
qed

lemma updateTranscription_cases:
  assumes "Transcription_findOne st tid = Some t"
    and "map_of req_body ''transcriptionText'' = txt"
    and "map_of req_body ''editedBy'' = who"
    and "map_of req_body ''speaker'' = sp"
    and "updateTranscription ty e tid req_body st = (resp, st')"
  shows "(status_code resp = 200 \<longleftrightarrow>
            (text_edited txt t \<longrightarrow>
               Option.bind txt (String_cast ty) \<noteq> None \<and>
               (truthy_opt who \<longrightarrow> Option.bind who (String_cast ty) \<noteq> None)) \<and>
            (if truthy_opt sp
             then (\<exists>s. Option.bind sp (String_cast ty) = Some s \<and> s \<in> set [''doctor'', ''patient'', ''unknown''])
             else speaker t \<in> set [''doctor'', ''patient'', ''unknown'']) \<and>
            transcriptionId t \<noteq> [] \<and>
            (case confidence t of None \<Rightarrow> True | Some c \<Rightarrow> 0 \<le> c \<and> c \<le> 100) \<and>
            status_t t \<in> set [''processing'', ''completed'', ''failed''])
       \<and> (status_code resp \<noteq> 200 \<longrightarrow> status_code resp = 500 \<and> st' = st)
       \<and> (status_code resp = 200 \<longrightarrow>
            (\<exists>t'. Transcription_findOne st' tid = Some t' \<and>
               (if text_edited txt t
                then (\<exists>new editor.
                        Option.bind txt (String_cast ty) = Some new \<and>
                        (if truthy_opt who then Option.bind who (String_cast ty) else Some ''unknown'') = Some editor \<and>
                        editHistory t' = editHistory t @
                          [\<lparr>originalText = transcriptionText t, editedText = new,
                            editedAt = now e, editedBy = editor\<rparr>] \<and>
                        transcriptionText t' = new \<and> isEdited t')
                else editHistory t' = editHistory t \<and> transcriptionText t' = transcriptionText t \<and>
                     isEdited t' = isEdited t)))"
proof -
  let ?t0 = "Transcription_init t"
  let ?tail = "\<lambda>t1. (case set_speaker ty sp t1 of
               Inl err \<Rightarrow> (internal_error ''Failed to update transcription'', st)
             | Inr t2 \<Rightarrow>
                (case Transcription_save t t2 st of
                   Inl err \<Rightarrow> (internal_error ''Failed to update transcription'', st)
                 | Inr st1 \<Rightarrow>
                    (\<lparr>status_code = 200,
                      body = [(''message'', PJson (JStr ''Transcription updated successfully'')),
                              (''transcription'', PTranscription t2)]\<rparr>,
                     st1)))"
  have u: "updateTranscription ty e tid req_body st =
      (case edit_text ty (now e) txt who ?t0 of
         Inl err \<Rightarrow> (internal_error ''Failed to update transcription'', st)
       | Inr t1 \<Rightarrow> ?tail t1)"
    unfolding updateTranscription_def assms(1,2,3,4) by simp
  show ?thesis
  proof (cases "edit_text ty (now e) txt who ?t0")
    case (Inl err)
    then have n: "text_edited txt t"
      "Option.bind txt (String_cast ty) = None \<or>
       truthy_opt who \<and> Option.bind who (String_cast ty) = None"
      by (auto simp: edit_text_eval text_edited_init split: if_splits option.splits)
    from assms(5) u Inl have "resp = internal_error ''Failed to update transcription''" "st' = st"
      by simp_all
    then show ?thesis using n by (auto simp: internal_error_def error_reply_def)
  next
    case (Inr t1)
    show ?thesis
    proof (cases "text_edited txt t")
      case False
      with Inr have t1: "t1 = ?t0" by (simp add: edit_text_eval text_edited_init)
      from assms(5) u Inr have r: "?tail t1 = (resp, st')" by simp
      from updateTranscription_tail [OF assms(1) _ _ _ _ _ r]
      show ?thesis using False by (simp add: t1 Transcription_init_fields)
    next
      case True
      with Inr obtain new editor where c: "Option.bind txt (String_cast ty) = Some new"
        "(if truthy_opt who then Option.bind who (String_cast ty) else Some ''unknown'') = Some editor"
        and t1: "t1 = ?t0\<lparr>editHistory := editHistory ?t0 @
                            [\<lparr>originalText = transcriptionText ?t0, editedText = new,
                              editedAt = now e, editedBy = editor\<rparr>],
                         transcriptionText := new,
                         isEdited := True\<rparr>"
        by (auto simp: edit_text_eval text_edited_init split: if_splits option.splits)
      from c(2) have w: "truthy_opt who \<longrightarrow> Option.bind who (String_cast ty) \<noteq> None"
        by (auto split: if_splits)
      from assms(5) u Inr have r: "?tail t1 = (resp, st')" by simp
      from updateTranscription_tail [OF assms(1) _ _ _ _ _ r]
      have "(status_code resp = 200 \<longleftrightarrow>
            (if truthy_opt sp
             then (\<exists>s. Option.bind sp (String_cast ty) = Some s \<and> s \<in> set [''doctor'', ''patient'', ''unknown''])
             else speaker t \<in> set [''doctor'', ''patient'', ''unknown'']) \<and>
            transcriptionId t \<noteq> [] \<and>
            (case confidence t of None \<Rightarrow> True | Some c \<Rightarrow> 0 \<le> c \<and> c \<le> 100) \<and>
            status_t t \<in> set [''processing'', ''completed'', ''failed''])
       \<and> (status_code resp \<noteq> 200 \<longrightarrow> status_code resp = 500 \<and> st' = st)
       \<and> (status_code resp = 200 \<longrightarrow>
            (\<exists>t'. Transcription_findOne st' tid = Some t' \<and>
                  editHistory t' = editHistory t @
                          [\<lparr>originalText = transcriptionText t, editedText = new,
                            editedAt = now e, editedBy = editor\<rparr>] \<and>
                  transcriptionText t' = new \<and> isEdited t'))"
        by (simp add: t1 Transcription_init_fields)
      then show ?thesis using True c w by auto
    qed
  qed
qed

text \<open>
  Claim C10, as the code has it. For every existing transcription and every request body:
  the update is accepted, and answered 200, exactly when the values of the request cast
  to their paths and the document passes its validators after the update, that is, the
  text and the editor cast to strings when the text is edited, the speaker of the request
  or else the stored speaker is one of the three allowed, and the stored identifier,
  confidence and status are valid; a request that is not accepted is answered 500 and
  changes nothing in the database. Afterwards the transcription is found under its
  \<open>transcriptionId\<close>, and it has one more entry at the end of \<open>editHistory\<close>, recording the
  previous and the new text, with the new text as its text and \<open>isEdited\<close> true, if and
  only if the request was accepted and supplies a text that is truthy and differs from the
  stored text (for a string: is not empty and differs); otherwise its text,
  \<open>editHistory\<close> and \<open>isEdited\<close> are as before.
\<close>

theorem updateTranscription_edit_history:
  assumes "Transcription_findOne st tid = Some t"
    and "updateTranscription ty e tid req_body st = (resp, st')"
  shows "(let txt = map_of req_body ''transcriptionText'';
              who = map_of req_body ''editedBy'';
              sp = map_of req_body ''speaker'';
              accepted =
                ((text_edited txt t \<longrightarrow>
                    Option.bind txt (String_cast ty) \<noteq> None \<and>
                    (truthy_opt who \<longrightarrow> Option.bind who (String_cast ty) \<noteq> None)) \<and>
                 (if truthy_opt sp
                  then (\<exists>s. Option.bind sp (String_cast ty) = Some s \<and> s \<in> set [''doctor'', ''patient'', ''unknown''])
                  else speaker t \<in> set [''doctor'', ''patient'', ''unknown'']) \<and>
                 transcriptionId t \<noteq> [] \<and>
                 (case confidence t of None \<Rightarrow> True | Some c \<Rightarrow> 0 \<le> c \<and> c \<le> 100) \<and>
                 status_t t \<in> set [''processing'', ''completed'', ''failed''])
          in (status_code resp = 200 \<longleftrightarrow> accepted) \<and>
             (\<not> accepted \<longrightarrow> status_code resp = 500 \<and> st' = st) \<and>
             (\<exists>t'. Transcription_findOne st' tid = Some t' \<and>
                (if accepted \<and> text_edited txt t
                 then (\<exists>new editor.
                         Option.bind txt (String_cast ty) = Some new \<and>
                         (if truthy_opt who then Option.bind who (String_cast ty) else Some ''unknown'') = Some editor \<and>
                         editHistory t' = editHistory t @
                           [\<lparr>originalText = transcriptionText t, editedText = new,
                             editedAt = now e, editedBy = editor\<rparr>] \<and>
                         transcriptionText t' = new \<and> isEdited t')
                 else editHistory t' = editHistory t \<and> transcriptionText t' = transcriptionText t \<and>
                      isEdited t' = isEdited t)))"
proof -
  define tx where "tx = map_of req_body ''transcriptionText''"
  define who where "who = map_of req_body ''editedBy''"
  define sp where "sp = map_of req_body ''speaker''"
  define accepted where "accepted \<longleftrightarrow>
                ((text_edited tx t \<longrightarrow>
                    Option.bind tx (String_cast ty) \<noteq> None \<and>
                    (truthy_opt who \<longrightarrow> Option.bind who (String_cast ty) \<noteq> None)) \<and>
                 (if truthy_opt sp
                  then (\<exists>s. Option.bind sp (String_cast ty) = Some s \<and> s \<in> set [''doctor'', ''patient'', ''unknown''])
                  else speaker t \<in> set [''doctor'', ''patient'', ''unknown'']) \<and>
                 transcriptionId t \<noteq> [] \<and>
                 (case confidence t of None \<Rightarrow> True | Some c \<Rightarrow> 0 \<le> c \<and> c \<le> 100) \<and>
                 status_t t \<in> set [''processing'', ''completed'', ''failed''])"
  define edited where "edited = (\<lambda>t' :: transcription_doc. \<exists>new editor.
                         Option.bind tx (String_cast ty) = Some new \<and>
                         (if truthy_opt who then Option.bind who (String_cast ty) else Some ''unknown'') = Some editor \<and>
                         editHistory t' = editHistory t @
                           [\<lparr>originalText = transcriptionText t, editedText = new,
                             editedAt = now e, editedBy = editor\<rparr>] \<and>
                         transcriptionText t' = new \<and> isEdited t')"
  define same where "same = (\<lambda>t' :: transcription_doc. editHistory t' = editHistory t \<and> transcriptionText t' = transcriptionText t \<and>
                      isEdited t' = isEdited t)"
  have c: "(status_code resp = 200 \<longleftrightarrow> accepted)
       \<and> (status_code resp \<noteq> 200 \<longrightarrow> status_code resp = 500 \<and> st' = st)
       \<and> (status_code resp = 200 \<longrightarrow>
            (\<exists>t'. Transcription_findOne st' tid = Some t' \<and>
               (if text_edited tx t then edited t' else same t')))"
    unfolding accepted_def edited_def same_def
    by (rule updateTranscription_cases
          [OF assms(1) tx_def [symmetric] who_def [symmetric] sp_def [symmetric] assms(2)])
  have s: "same t" by (simp add: same_def)
  have "\<exists>t'. Transcription_findOne st' tid = Some t' \<and>
          (if accepted \<and> text_edited tx t then edited t' else same t')"
  proof (cases "status_code resp = 200")
    case True
    with c obtain t' where "Transcription_findOne st' tid = Some t'"
      and "if text_edited tx t then edited t' else same t'"
      by blast
    moreover from True c have accepted by blast
    ultimately show ?thesis by (cases "text_edited tx t") auto
  next
    case False
    with c have "st' = st" "\<not> accepted" by blast+
    then show ?thesis using assms(1) s by auto
  qed
  with c have final: "(status_code resp = 200 \<longleftrightarrow> accepted) \<and>
             (\<not> accepted \<longrightarrow> status_code resp = 500 \<and> st' = st) \<and>
             (\<exists>t'. Transcription_findOne st' tid = Some t' \<and>
                (if accepted \<and> text_edited tx t then edited t' else same t'))"
    by blast
  show ?thesis
    unfolding Let_def
    by (rule final [unfolded accepted_def edited_def same_def tx_def who_def sp_def])
qed

theorem updateTranscription_edit_history_witness:
  "status_code (fst (updateTranscription plain_types env_A ''trans_1''
      [(''transcriptionText'', JStr ''fever since sunday'')] store_A)) = 200 \<and>
   (\<exists>t'. Transcription_findOne (snd (updateTranscription plain_types env_A ''trans_1''
               [(''transcriptionText'', JStr ''fever since sunday'')] store_A)) ''trans_1'' = Some t' \<and>
      editHistory t' =
        [\<lparr>originalText = ''fever since monday'', editedText = ''fever since sunday'',
          editedAt = 91000, editedBy = ''unknown''\<rparr>] \<and>
      transcriptionText t' = ''fever since sunday'' \<and> isEdited t')"
proof -
  have f: "speaker transcription_A = ''unknown''" "confidence transcription_A = None"
    "status_t transcription_A = ''completed''" "editHistory transcription_A = []"
    by (simp_all add: transcription_A_def)
  from updateTranscription_edit_history [where ty = plain_types and e = env_A
      and req_body = "[(''transcriptionText'', JStr ''fever since sunday'')]"
      and resp = "fst (updateTranscription plain_types env_A ''trans_1''
            [(''transcriptionText'', JStr ''fever since sunday'')] store_A)"
      and st' = "snd (updateTranscription plain_types env_A ''trans_1''
            [(''transcriptionText'', JStr ''fever since sunday'')] store_A)",
      OF findOne_A]
  show ?thesis
    by (simp add: Let_def text_edited_string transcription_A_fields f String_cast_def truthy_opt_def env_A_def)
qed

text \<open>
  A request with a new text and a speaker outside the enumeration: the text is not empty
  and differs from the stored text, and nothing is appended to \<open>editHistory\<close>, since
  the save is refused and the answer is 500.
\<close>

theorem updateTranscription_refused_counterexample:
  "Transcription_findOne store_A ''trans_1'' = Some transcription_A \<and>
   transcriptionText transcription_A = ''fever since monday'' \<and>
   updateTranscription plain_types env_A ''trans_1''
     [(''transcriptionText'', JStr ''fever since sunday''), (''speaker'', JStr ''nurse'')] store_A =
     (error_reply 500 ''Internal server error'' ''Failed to update transcription'', store_A)"
proof -
  let ?t1 = "(Transcription_init transcription_A)
        \<lparr>editHistory := editHistory (Transcription_init transcription_A) @
           [\<lparr>originalText = transcriptionText (Transcription_init transcription_A),
             editedText = ''fever since sunday'', editedAt = now env_A, editedBy = ''unknown''\<rparr>],
         transcriptionText := ''fever since sunday'',
         isEdited := True\<rparr>"
  have 1: "edit_text plain_types (now env_A) (Some (JStr ''fever since sunday'')) None
      (Transcription_init transcription_A) = Inr ?t1"
    by (simp add: edit_text_eval text_edited_init text_edited_string transcription_A_fields
        String_cast_def truthy_opt_def)
  have 2: "set_speaker plain_types (Some (JStr ''nurse'')) ?t1 = Inr (?t1\<lparr>speaker := ''nurse''\<rparr>)"
    by (simp add: set_speaker_eval truthy_opt_def String_cast_def)
  have 3: "\<not> transcription_valid (?t1\<lparr>speaker := ''nurse''\<rparr>)"
    by (simp add: transcription_valid_def)
  show ?thesis
    by (simp add: findOne_A transcription_A_fields updateTranscription_def 1 2
        Transcription_save_invalid [OF 3] internal_error_def)
qed

text \<open>
  Deleting the one transcription of the session of \<open>store_A\<close> leads to \<open>store_B\<close>: a
  session that is linked to a summary and has no transcription.
\<close>

lemma pull_update:
  assumes "ObjectId_of r = Some i"
  shows "modelled_update ty [(''$pull'', JObj [(''transcriptions'', JStr r)])] =
    Some (Inr (\<lambda>s. s\<lparr>transcriptions := removeAll i (transcriptions s)\<rparr>))"
proof -
  have c: "castUpdate [(''$pull'', JObj [(''transcriptions'', JStr r)])] =
      Some [PullPath ''transcriptions'' (JStr r)]"
    by (simp add: castUpdate_def operand_def is_operator_def)
  have p: "cast_pull ty ''transcriptions'' (JStr r) =
      Some (Inr (\<lambda>s. s\<lparr>transcriptions := removeAll i (transcriptions s)\<rparr>))"
    by (simp add: cast_pull_def ObjectId_cast_def assms)
  show ?thesis
    by (simp add: modelled_update_def c p op_path_def session_paths_def)
qed

lemma deleteTranscription_A:
  "deleteTranscription ty ''trans_1'' store_A =
    (\<lparr>status_code = 200,
      body = [(''message'', PJson (JStr ''Transcription deleted successfully''))]\<rparr>,
     store_B)"
proof -
  have i: "ObjectId_of ''64b7f0c2a1d3e4f5a6b7c8da'' = Some ''64b7f0c2a1d3e4f5a6b7c8da''"
    by (simp add: ObjectId_of_def isObjectId_def isHexDigit_def toLowerCase_def)
  have f: "find (\<lambda>d. oid d = ''64b7f0c2a1d3e4f5a6b7c8d9'') (db_sessions store_A) = Some session_A"
    by (simp add: store_A_def session_A_def)
  have t: "removeAll ''64b7f0c2a1d3e4f5a6b7c8da'' (transcriptions session_A) = []"
    by (simp add: session_A_def)
  have r: "map (\<lambda>x. if oid x = ''64b7f0c2a1d3e4f5a6b7c8d9'' then x\<lparr>transcriptions := removeAll ''64b7f0c2a1d3e4f5a6b7c8da'' (transcriptions x)\<rparr> else x)
        (db_sessions store_A) = [session_A\<lparr>transcriptions := []\<rparr>]"
    by (simp add: store_A_def session_A_def)
  have u: "Session_findByIdAndUpdate ty store_A ''64b7f0c2a1d3e4f5a6b7c8d9''
        [(''$pull'', JObj [(''transcriptions'', JStr ''64b7f0c2a1d3e4f5a6b7c8da'')])] =
      Inr (Some (session_A\<lparr>transcriptions := []\<rparr>),
           store_A\<lparr>db_sessions := [session_A\<lparr>transcriptions := []\<rparr>]\<rparr>)"
    by (simp add: Session_findByIdAndUpdate_def oid_A pull_update [OF i] f t r)
  show ?thesis
    by (simp add: deleteTranscription_def findOne_A transcription_A_fields u)
       (simp add: store_A_def store_B_def transcription_A_fields)
qed

section \<open>Properties of generateSummary\<close>

lemma regenerate_absent_or_false:
  "map_of req_body ''regenerate'' = None \<or> map_of req_body ''regenerate'' = Some (JBool False)
   \<Longrightarrow> \<not> regenerate_of req_body"
  by (auto simp: regenerate_of_def)

text \<open>
  Claim C1, as the code has it. For every session linked to an existing summary,
  \<open>generateSummary\<close> with \<open>regenerate\<close> absent or \<open>false\<close> answers 400, starts no
  generation and leaves the database as it was, so that no Summary is created and the link
  of the session is unchanged. When the session has at least one transcription the answer
  is the error \<open>Summary already exists\<close> with the \<open>summaryId\<close> of the existing
  summary; for a session without transcriptions the check for transcriptions comes first
  and the answer is the error \<open>No transcriptions found\<close>, which has no \<open>summaryId\<close>.
\<close>

theorem generateSummary_existing_summary:
  assumes "Session_findById st sid = Inr (Some session)"
    and "populate_summary st session = Some existing"
    and "map_of req_body ''regenerate'' = None \<or> map_of req_body ''regenerate'' = Some (JBool False)"
  shows "\<exists>r. generateSummary e sid req_body st = (r, st, None) \<and> status_code r = 400 \<and>
           r = (if populate_transcriptions st session = []
                then error_reply 400 ''No transcriptions found''
                       ''Cannot generate summary without transcriptions''
                else \<lparr>status_code = 400,
                      body = [(''error'', PJson (JStr ''Summary already exists'')),
                              (''message'', PJson (JStr ''Summary already exists for this session. Use regenerate=true to create a new version'')),
                              (''summaryId'', PJson (JStr (summaryId existing)))]\<rparr>)"
  using assms(1,2) regenerate_absent_or_false [OF assms(3)]
  by (simp add: generateSummary_def error_reply_def)

theorem generateSummary_existing_summary_witness:
  "generateSummary env_A ''64b7f0c2a1d3e4f5a6b7c8d9'' [] store_A =
     (\<lparr>status_code = 400,
       body = [(''error'', PJson (JStr ''Summary already exists'')),
               (''message'', PJson (JStr ''Summary already exists for this session. Use regenerate=true to create a new version'')),
               (''summaryId'', PJson (JStr ''sum_1''))]\<rparr>,
      store_A, None)"
  using generateSummary_existing_summary [OF findById_A populate_A(1), of "[]" env_A]
  by (simp add: populate_A summary_A_def)

text \<open>
  The session of \<open>store_B\<close> is linked to the summary \<open>sum_1\<close> and has no transcription
  left: the answer is 400, without a \<open>summaryId\<close>.
\<close>

theorem generateSummary_no_transcriptions_counterexample:
  "Session_findById store_B ''64b7f0c2a1d3e4f5a6b7c8d9'' = Inr (Some (session_A\<lparr>transcriptions := []\<rparr>)) \<and>
   populate_summary store_B (session_A\<lparr>transcriptions := []\<rparr>) = Some summary_A \<and>
   generateSummary env_A ''64b7f0c2a1d3e4f5a6b7c8d9'' [] store_B =
     (error_reply 400 ''No transcriptions found'' ''Cannot generate summary without transcriptions'',
      store_B, None) \<and>
   map_of (body (fst (generateSummary env_A ''64b7f0c2a1d3e4f5a6b7c8d9'' [] store_B))) ''summaryId'' = None"
  by (simp add: populate_B findById_B generateSummary_def error_reply_def)




text \<open>
  A first request for a summary is never accepted: the new document has no
  \<open>content\<close>, so its save fails in validation, and the handler answers 500 from its
  \<open>catch\<close> block without having started the generation.
\<close>

lemma new_Summary_invalid: "\<not> summary_valid (new_Summary e sid)"
  by (simp add: summary_valid_def new_Summary_def required_content_def)

lemma first_summary_request_refused:
  assumes f: "Session_findById st sid = Inr (Some session)"
    and t: "populate_transcriptions st session \<noteq> []"
    and p: "populate_summary st session = None"
  shows "generateSummary e sid req_body st =
    (internal_error ''Failed to start summary generation'', st, None)"
  using t by (simp add: generateSummary_def f p Let_def Summary_insert_def new_Summary_invalid)

text \<open>
  Claim C2. The claim is that every request for a summary that passes the checks of the
  handler is answered 202 while the generation goes on. The session of \<open>store_C\<close> exists,
  has a transcription and no summary, so a request with an empty body passes the three
  checks; the handler then builds a new Summary, whose save fails in validation, and
  answers 500 from its \<open>catch\<close> block. Nothing is stored and no generation is started.
\<close>

theorem generateSummary_first_request_fails:
  "Session_findById store_C ''64b7f0c2a1d3e4f5a6b7c8d9'' = Inr (Some (session_A\<lparr>summary := None\<rparr>)) \<and>
   populate_transcriptions store_C (session_A\<lparr>summary := None\<rparr>) = [transcription_A] \<and>
   populate_summary store_C (session_A\<lparr>summary := None\<rparr>) = None \<and>
   generateSummary env_A ''64b7f0c2a1d3e4f5a6b7c8d9'' [] store_C =
     (error_reply 500 ''Internal server error'' ''Failed to start summary generation'', store_C, None)"
  using first_summary_request_refused [OF findById_C, of env_A "[]"]
  by (simp add: findById_C populate_C internal_error_def)

section \<open>Properties of uploadAudio and of the callbacks\<close>













section \<open>Properties of the upload route\<close>

text \<open>
  An upload that contains a file outside the allowlist ends with one of three errors:
  either an earlier file has ended it, or the file is unexpected, or the file filter
  refuses it.
\<close>

lemma multer_files_refused:
  "f \<in> set parts \<Longrightarrow> mimetype f \<notin> set allowedMimes \<Longrightarrow>
   \<exists>err. multer_files fileFilter limit field n parts = Inl err \<and>
     (err = MulterError ''LIMIT_UNEXPECTED_FILE'' ''Unexpected field'' \<or>
      err = MulterError ''LIMIT_FILE_SIZE'' ''File too large'' \<or>
      err = PlainError ''Invalid file type. Only audio files are allowed.'')"
proof (induction parts arbitrary: n)
  case Nil
  then show ?case by simp
next
  case (Cons p ps)
  show ?case
  proof (cases "p = f")
    case True
    with Cons.prems(2) show ?thesis by (simp add: fileFilter_def)
  next
    case False
    with Cons.prems have "f \<in> set ps" by simp
    from Cons.IH [OF this Cons.prems(2), of "n - 1"]
    show ?thesis by (auto simp: fileFilter_def)
  qed
qed

lemma router_error_handler_400:
  "err = MulterError ''LIMIT_UNEXPECTED_FILE'' ''Unexpected field'' \<or>
   err = MulterError ''LIMIT_FILE_SIZE'' ''File too large'' \<or>
   err = PlainError ''Invalid file type. Only audio files are allowed.'' \<Longrightarrow>
   \<exists>r. router_error_handler err = Some r \<and> status_code r = 400"
  by (auto simp: router_error_handler_def error_reply_def err_message_def)

text \<open>
  Claim C6. For every upload that contains a file whose MIME type is not in the allowlist,
  the upload route answers 400, stores nothing (no Transcription is created) and starts no
  transcription.
\<close>

theorem upload_non_audio_rejected:
  assumes "f \<in> set parts" and "mimetype f \<notin> set allowedMimes"
  shows "\<exists>r. route_transcribe_upload a e parts req_body st = (r, st, None) \<and> status_code r = 400"
proof -
  from multer_files_refused [OF assms, of "50 * 1024 * 1024" "''audio''" 1]
  obtain err where m: "multer_files fileFilter (50 * 1024 * 1024) ''audio'' 1 parts = Inl err"
    and k: "err = MulterError ''LIMIT_UNEXPECTED_FILE'' ''Unexpected field'' \<or>
      err = MulterError ''LIMIT_FILE_SIZE'' ''File too large'' \<or>
      err = PlainError ''Invalid file type. Only audio files are allowed.''"
    by blast
  from router_error_handler_400 [OF k] obtain r where
    r: "router_error_handler err = Some r" "status_code r = 400" by blast
  have "multer_single fileFilter (50 * 1024 * 1024) ''audio'' parts = Inl err"
    using m by (simp add: multer_single_def)
  then show ?thesis
    using r by (simp add: route_transcribe_upload_def)
qed

lemma pdf_not_allowed: "mimetype pdf_part \<notin> set allowedMimes"
  by (simp add: pdf_part_def allowedMimes_def)

theorem upload_non_audio_rejected_witness:
  "\<exists>r. route_transcribe_upload (server_app False) env_A [pdf_part]
          [(''sessionId'', JStr ''64b7f0c2a1d3e4f5a6b7c8d9'')] store_A = (r, store_A, None) \<and>
       status_code r = 400"
  using upload_non_audio_rejected [of pdf_part "[pdf_part]", OF _ pdf_not_allowed]
  by simp

text \<open>An audio file in the field \<open>audio\<close> passes multer and reaches the handler.\<close>

lemma route_audio_A:
  "route_transcribe_upload a env_A [audio_part] req_body store_A =
     uploadAudio env_A req_body (Some audio_part) store_A"
proof -
  have "multer_single fileFilter (50 * 1024 * 1024) ''audio'' [audio_part] = Inr (Some audio_part)"
    by (simp add: multer_single_def fileFilter_def allowedMimes_def audio_part_def)
  then show ?thesis by (simp add: route_transcribe_upload_def)
qed

section \<open>Properties of the WebSocket channel\<close>

lemma room_events_Nil: "room_events [] = []"
  by (simp add: room_events_def)

lemma room_events_to_session:
  "set (room_events (to_session a sid ev p)) \<subseteq> {ev}"
  by (cases "has_io a") (simp_all add: room_events_def to_session_def)

lemma room_events_upload_rejected:
  "set (room_events (snd (upload_rejected a job msg st))) \<subseteq> {''transcription-failed''}"
proof (cases "Transcription_save (job_saved job) ((job_transcription job)\<lparr>status_t := ''failed''\<rparr>) st")
  case (Inl err)
  then show ?thesis by (simp add: upload_rejected_def room_events_Nil)
next
  case (Inr st1)
  then show ?thesis by (simp add: upload_rejected_def room_events_to_session)
qed

lemma room_events_upload_fulfilled:
  "set (room_events (snd (upload_fulfilled a job result st))) \<subseteq>
     {''transcription-completed'', ''transcription-failed''}"
proof -
  let ?t = "(job_transcription job)
           \<lparr>transcriptionText := r_text result,
            confidence := None,
            language_t := r_language result,
            processingMetadata :=
              JObj (filter (\<lambda>kv. fst kv \<in> set [''model'', ''processingTime'', ''tokenUsage'']) (r_metadata result)),
            status_t := ''completed''\<rparr>"
  let ?s = "(job_session job)\<lparr>transcriptions := transcriptions (job_session job) @ [oid_t ?t]\<rparr>"
  have rej: "set (room_events (snd (upload_rejected a j m s))) \<subseteq>
      {''transcription-completed'', ''transcription-failed''}" for j m s
    using room_events_upload_rejected [of a j m s] by blast
  show ?thesis
  proof (cases "Transcription_save (job_saved job) ?t st")
    case (Inl err)
    then show ?thesis using rej by (simp add: upload_fulfilled_def Let_def)
  next
    case (Inr st1)
    note sv = this
    show ?thesis
    proof (cases "Session_save (job_session_saved job) ?s st1")
      case (Inl err)
      then show ?thesis using sv rej by (simp add: upload_fulfilled_def Let_def)
    next
      case (Inr p)
      then show ?thesis
        using sv room_events_to_session [of a "JStr (job_sessionId job)" "''transcription-completed''"]
        by (cases p) (auto simp: upload_fulfilled_def Let_def)
    qed
  qed
qed

lemma room_events_summary_rejected:
  "set (room_events (snd (summary_rejected a job msg st))) \<subseteq> {''summary-failed''}"
proof (cases "Summary_save (sj_saved job) ((sj_summary job)\<lparr>status_m := ''failed''\<rparr>) st")
  case (Inl err)
  then show ?thesis by (simp add: summary_rejected_def room_events_Nil)
next
  case (Inr st1)
  then show ?thesis by (simp add: summary_rejected_def room_events_to_session)
qed

lemma room_events_summary_fulfilled:
  "set (room_events (snd (summary_fulfilled a job result st))) \<subseteq>
     {''summary-completed'', ''summary-failed''}"
proof -
  let ?m = "(if sj_regenerate job \<and> sj_linked job
            then createNewVersion (sr_content result) ''ai-generated'' (sj_summary job)
            else (sj_summary job)
                   \<lparr>content := cast_content (sr_content result),
                    keyPoints := sr_keyPoints result,
                    extractedData := sr_extractedData result,
                    generationMetadata := sr_metadata result,
                    status_m := ''completed''\<rparr>)"
  have rej: "set (room_events (snd (summary_rejected a j m s))) \<subseteq>
      {''summary-completed'', ''summary-failed''}" for j m s
    using room_events_summary_rejected [of a j m s] by blast
  show ?thesis
  proof (cases "Summary_save (sj_saved job) ?m st")
    case (Inl err)
    then show ?thesis using rej by (simp add: summary_fulfilled_def Let_def)
  next
    case (Inr st1)
    then show ?thesis
      using room_events_to_session [of a "JStr (sj_sessionId job)" "''summary-completed''"]
      by (auto simp: summary_fulfilled_def Let_def)
  qed
qed

lemma room_events_stream:
  "set (room_events (snd (startStreamTranscription a parts req_body outcome))) \<subseteq> {''live-transcription''}"
proof (cases "multer_single no_filter (10 * 1024 * 1024) ''audio'' parts")
  case (Inl err)
  then show ?thesis by (simp add: startStreamTranscription_def room_events_Nil)
next
  case (Inr audio)
  note m = this
  show ?thesis
  proof (cases "map_of req_body ''sessionId''")
    case None
    then show ?thesis using m by (simp add: startStreamTranscription_def room_events_Nil)
  next
    case (Some sid)
    note b = this
    show ?thesis
    proof (cases "\<not> truthy sid \<or> audio = None")
      case True
      then show ?thesis using m b by (simp add: startStreamTranscription_def room_events_Nil)
    next
      case False
      then show ?thesis using m b room_events_to_session [of a sid "''live-transcription''"]
        by (cases outcome) (simp_all add: startStreamTranscription_def room_events_Nil)
    qed
  qed
qed

lemma room_events_socket:
  "set (room_events (socket_on ev data)) \<subseteq> {''transcription-update''}"
proof (cases "ev = ''join-session''")
  case True
  then show ?thesis by (simp add: socket_on_def room_events_def)
next
  case False
  note nj = this
  show ?thesis
  proof (cases "ev = ''transcription-update''")
    case True
    then show ?thesis by (cases data) (simp_all add: socket_on_def room_events_def)
  next
    case False
    then show ?thesis using nj by (simp add: socket_on_def room_events_def)
  qed
qed

lemma room_event_names_mem:
  "''transcription-completed'' \<in> set room_event_names"
  "''transcription-failed'' \<in> set room_event_names"
  "''live-transcription'' \<in> set room_event_names"
  "''summary-completed'' \<in> set room_event_names"
  "''summary-failed'' \<in> set room_event_names"
  "''transcription-update'' \<in> set room_event_names"
  by (simp_all add: room_event_names_def)

text \<open>
  Claim C4, as the code has it. Every event the server sends to a room is one of
  \<open>transcription-completed\<close>, \<open>transcription-failed\<close>, \<open>live-transcription\<close>,
  \<open>summary-completed\<close>, \<open>summary-failed\<close>, or \<open>transcription-update\<close>, the event
  that the socket handler passes on from one client to the room \<open>data.sessionId\<close>.
\<close>

theorem room_events_of_server:
  "set (room_events (emissions a st step)) \<subseteq> set room_event_names"
proof (cases step)
  case (UploadFulfilled job result)
  have "set (room_events (emissions a st step)) \<subseteq> {''transcription-completed'', ''transcription-failed''}"
    using room_events_upload_fulfilled [of a job result st] by (simp add: UploadFulfilled emissions_def)
  also have "\<dots> \<subseteq> set room_event_names" by (simp add: room_event_names_mem)
  finally show ?thesis .
next
  case (UploadRejected job msg)
  have "set (room_events (emissions a st step)) \<subseteq> {''transcription-failed''}"
    using room_events_upload_rejected [of a job msg st] by (simp add: UploadRejected emissions_def)
  also have "\<dots> \<subseteq> set room_event_names" by (simp add: room_event_names_mem)
  finally show ?thesis .
next
  case (SummaryFulfilled job result)
  have "set (room_events (emissions a st step)) \<subseteq> {''summary-completed'', ''summary-failed''}"
    using room_events_summary_fulfilled [of a job result st] by (simp add: SummaryFulfilled emissions_def)
  also have "\<dots> \<subseteq> set room_event_names" by (simp add: room_event_names_mem)
  finally show ?thesis .
next
  case (SummaryRejected job msg)
  have "set (room_events (emissions a st step)) \<subseteq> {''summary-failed''}"
    using room_events_summary_rejected [of a job msg st] by (simp add: SummaryRejected emissions_def)
  also have "\<dots> \<subseteq> set room_event_names" by (simp add: room_event_names_mem)
  finally show ?thesis .
next
  case (StreamChunk parts req_body outcome)
  have "set (room_events (emissions a st step)) \<subseteq> {''live-transcription''}"
    using room_events_stream [of a parts req_body outcome] by (simp add: StreamChunk emissions_def)
  also have "\<dots> \<subseteq> set room_event_names" by (simp add: room_event_names_mem)
  finally show ?thesis .
next
  case (SocketMessage ev data)
  have "set (room_events (emissions a st step)) \<subseteq> {''transcription-update''}"
    using room_events_socket [of ev data] by (simp add: SocketMessage emissions_def)
  also have "\<dots> \<subseteq> set room_event_names" by (simp add: room_event_names_mem)
  finally show ?thesis .
qed

text \<open>
  A client's \<open>transcription-update\<close> message for a session is sent on to the room of
  that session under the same name, which is none of the five names of the three event
  types.
\<close>

theorem transcription_update_counterexample:
  "emissions (server_app False) store_A
     (SocketMessage ''transcription-update'' (JObj [(''sessionId'', JStr ''64b7f0c2a1d3e4f5a6b7c8d9'')])) =
     [\<lparr>target = ToRoom (Some (JStr ''64b7f0c2a1d3e4f5a6b7c8d9'')), event = ''transcription-update'',
       payload = JObj [(''sessionId'', JStr ''64b7f0c2a1d3e4f5a6b7c8d9'')]\<rparr>] \<and>
   ''transcription-update'' \<notin> set [''transcription-completed'', ''transcription-failed'',
       ''live-transcription'', ''summary-completed'', ''summary-failed'']"
  by (simp add: emissions_def socket_on_def)


end
